theory Spec2Isabelle
  imports Complex_Main "HOL-Library.Sublist"
begin

section \<open>Conversion pipeline of \<^verbatim>\<open>converter.py\<close>\<close>

text \<open>
  A shallow embedding of \<^verbatim>\<open>DependencyManager.get_ffmpeg_path\<close> and of the four methods of
  \<^verbatim>\<open>MediaConverter\<close> (\<^verbatim>\<open>_run_ffmpeg\<close>, \<^verbatim>\<open>render_tgs\<close>, \<^verbatim>\<open>to_gif\<close>, \<^verbatim>\<open>to_mp4\<close>).
  The operating system and the two external tools (the rlottie binding and the encoder
  process) are a record of functions, \<open>env\<close>; the part of the machine the code changes
  is a record \<open>world\<close> that every function takes and returns. A Python exception is the
  outcome \<open>Raises\<close>, a call that never comes back is \<open>Hangs\<close>.
\<close>

subsection \<open>Outcomes\<close>

datatype exn = OSError | ValueError | TypeError | OverflowError | RuntimeError | UnicodeDecodeError

datatype 'a outcome = Returns 'a | Raises exn | Hangs

subsection \<open>Configuration (class \<^verbatim>\<open>Config\<close>)\<close>

definition RENDER_WIDTH :: int where "RENDER_WIDTH = 512"
definition RENDER_HEIGHT :: int where "RENDER_HEIGHT = 512"
definition TARGET_FPS :: int where "TARGET_FPS = 30"
definition FFMPEG_PRESET :: string where "FFMPEG_PRESET = ''slow''"
definition FFMPEG_CRF :: string where "FFMPEG_CRF = ''18''"

subsection \<open>Python built-ins the code uses\<close>

definition digit_char :: "nat \<Rightarrow> char" where
  "digit_char d = char_of (48 + d)"

fun dec_digits :: "nat \<Rightarrow> string" where
  "dec_digits n =
     (if n < 10 then [digit_char n] else dec_digits (n div 10) @ [digit_char (n mod 10)])"

declare dec_digits.simps [simp del]

text \<open>\<^verbatim>\<open>str(i)\<close> for an \<^verbatim>\<open>int\<close>.\<close>

definition py_str :: "int \<Rightarrow> string" where
  "py_str i = (if i < 0 then CHR ''-'' # dec_digits (nat (- i)) else dec_digits (nat i))"

text \<open>Truthiness of an \<^verbatim>\<open>Optional[str]\<close>: \<^verbatim>\<open>None\<close> and the empty string are false.\<close>

definition truthy :: "string option \<Rightarrow> bool" where
  "truthy s = (case s of None \<Rightarrow> False | Some v \<Rightarrow> v \<noteq> [])"

text \<open>
  A C \<^verbatim>\<open>double\<close> as the binding returns it: a finite value is a real number, the rest
  are the three special values. \<^verbatim>\<open>int(x)\<close> truncates towards zero and raises on the
  special values.
\<close>

datatype c_double = Finite real | NaN | PosInf | NegInf

definition py_int :: "c_double \<Rightarrow> exn + int" where
  "py_int x =
     (case x of
        Finite r \<Rightarrow> Inr (if 0 \<le> r then \<lfloor>r\<rfloor> else \<lceil>r\<rceil>)
      | NaN \<Rightarrow> Inl ValueError
      | PosInf \<Rightarrow> Inl OverflowError
      | NegInf \<Rightarrow> Inl OverflowError)"

text \<open>\<^verbatim>\<open>range(i, n, s)\<close> for a positive step (the code's step is the constant 2).\<close>

function py_range :: "int \<Rightarrow> int \<Rightarrow> int \<Rightarrow> int list" where
  "py_range i n s = (if 0 < s \<and> i < n then i # py_range (i + s) n s else [])"
  by pat_completeness auto
termination
  by (relation "measure (\<lambda>(i, n, s). nat (n - i))") auto

declare py_range.simps [simp del]

text \<open>\<^verbatim>\<open>os.path.join(a, b)\<close> of \<^verbatim>\<open>posixpath\<close>, two arguments.\<close>

definition os_path_join :: "string \<Rightarrow> string \<Rightarrow> string" where
  "os_path_join a b =
     (if b \<noteq> [] \<and> hd b = CHR ''/'' then b
      else if a = [] \<or> last a = CHR ''/'' then a @ b
      else a @ ''/'' @ b)"

subsection \<open>The \<^verbatim>\<open>%\<close> operator on a string and one \<^verbatim>\<open>int\<close>\<close>

text \<open>
  \<^verbatim>\<open>ptrn % k\<close> follows CPython's \<^verbatim>\<open>PyUnicode_Format\<close> for a right operand that is one
  \<^verbatim>\<open>int\<close> (neither a tuple nor a mapping): text is copied; a \<^verbatim>\<open>%\<close> opens a conversion
  made of flags, a width, a precision, a length modifier and a conversion character;
  \<^verbatim>\<open>%%\<close> gives a percent sign and takes no argument; \<^verbatim>\<open>*\<close> and every other conversion
  take the argument, and there is only one. A format that ends inside a conversion, a
  mapping key, a second demand for an argument, and an argument left unused all raise.
  The integer conversions \<^verbatim>\<open>d\<close>, \<^verbatim>\<open>i\<close>, \<^verbatim>\<open>u\<close> are formatted in full. Any other
  conversion character raises here; for the characters Python does accept
  (\<^verbatim>\<open>s r a o x X e f g c\<close>) that is exact on every pattern \<^verbatim>\<open>render_tgs\<close> builds, which
  ends in \<^verbatim>\<open>frame_%04d.png\<close>: the conversion would take the only argument and the final
  \<^verbatim>\<open>%04d\<close> would raise.
\<close>

record fspec =
  f_ljust :: bool
  f_sign :: bool
  f_blank :: bool
  f_alt :: bool
  f_zero :: bool
  f_width :: nat
  f_prec :: "nat option"

definition fspec0 :: fspec where
  "fspec0 = \<lparr>f_ljust = False, f_sign = False, f_blank = False, f_alt = False,
             f_zero = False, f_width = 0, f_prec = None\<rparr>"

datatype phase = PText | PStart | PFlags | PWidth | PStarW | PDot | PPrec | PStarP | PLen

definition PY_SSIZE_T_MAX :: nat where "PY_SSIZE_T_MAX = 2 ^ 63 - 1"
definition INT_MAX :: nat where "INT_MAX = 2 ^ 31 - 1"

definition is_digit :: "char \<Rightarrow> bool" where
  "is_digit c = ((48::nat) \<le> of_char c \<and> (of_char c :: nat) \<le> 57)"

definition digit_val :: "char \<Rightarrow> nat" where
  "digit_val c = (of_char c :: nat) - 48"

definition is_flag :: "char \<Rightarrow> bool" where
  "is_flag c = (c \<in> set ''-+ #0'')"

definition set_flag :: "char \<Rightarrow> fspec \<Rightarrow> fspec" where
  "set_flag c sp =
     (if c = CHR ''-'' then sp\<lparr>f_ljust := True\<rparr>
      else if c = CHR ''+'' then sp\<lparr>f_sign := True\<rparr>
      else if c = CHR '' '' then sp\<lparr>f_blank := True\<rparr>
      else if c = CHR ''#'' then sp\<lparr>f_alt := True\<rparr>
      else sp\<lparr>f_zero := True\<rparr>)"

definition prec_val :: "fspec \<Rightarrow> nat" where
  "prec_val sp = (case f_prec sp of None \<Rightarrow> 0 | Some p \<Rightarrow> p)"

text \<open>The text of a \<^verbatim>\<open>d\<close> conversion: digits, precision, sign, then padding to the width.\<close>

definition format_long :: "fspec \<Rightarrow> int \<Rightarrow> string" where
  "format_long sp k =
     (let ds = dec_digits (nat \<bar>k\<bar>);
          body = (case f_prec sp of None \<Rightarrow> ds
                  | Some p \<Rightarrow> replicate (p - length ds) CHR ''0'' @ ds);
          sgn = (if k < 0 then ''-'' else if f_sign sp then ''+''
                 else if f_blank sp then '' '' else '''');
          pad = f_width sp - (length sgn + length body)
      in if f_ljust sp then sgn @ body @ replicate pad CHR '' ''
         else if f_zero sp then sgn @ replicate pad CHR ''0'' @ body
         else replicate pad CHR '' '' @ sgn @ body)"

definition emit :: "string \<Rightarrow> exn + string \<Rightarrow> exn + string" where
  "emit s r = (case r of Inl e \<Rightarrow> Inl e | Inr t \<Rightarrow> Inr (s @ t))"

text \<open>
  One character per step. \<open>unused\<close> says that the argument has not been taken yet.
\<close>

fun fmt_scan :: "phase \<Rightarrow> fspec \<Rightarrow> bool \<Rightarrow> int \<Rightarrow> string \<Rightarrow> exn + string" where
  "fmt_scan ph sp unused k [] =
     (if ph = PText then (if unused then Inl TypeError else Inr [])
      else Inl ValueError)"
| "fmt_scan ph sp unused k (c # cs) =
     (if ph = PText then
        (if c = CHR ''%'' then fmt_scan PStart fspec0 unused k cs
         else emit [c] (fmt_scan PText sp unused k cs))
      else if ph = PStart \<and> c = CHR ''('' then Inl TypeError
      else if (ph = PStart \<or> ph = PFlags) \<and> is_flag c then
        fmt_scan PFlags (set_flag c sp) unused k cs
      else if (ph = PStart \<or> ph = PFlags) \<and> c = CHR ''*'' then
        (if \<not> unused then Inl TypeError
         else if int PY_SSIZE_T_MAX < \<bar>k\<bar> then Inl OverflowError
         else fmt_scan PStarW
                (sp\<lparr>f_width := nat \<bar>k\<bar>, f_ljust := (f_ljust sp \<or> k < 0)\<rparr>) False k cs)
      else if (ph = PStart \<or> ph = PFlags) \<and> is_digit c then
        fmt_scan PWidth (sp\<lparr>f_width := digit_val c\<rparr>) unused k cs
      else if ph = PWidth \<and> is_digit c then
        (if (PY_SSIZE_T_MAX - digit_val c) div 10 < f_width sp then Inl ValueError
         else fmt_scan PWidth (sp\<lparr>f_width := f_width sp * 10 + digit_val c\<rparr>) unused k cs)
      else if (ph = PStart \<or> ph = PFlags \<or> ph = PWidth \<or> ph = PStarW) \<and> c = CHR ''.'' then
        fmt_scan PDot (sp\<lparr>f_prec := Some 0\<rparr>) unused k cs
      else if ph = PDot \<and> c = CHR ''*'' then
        (if \<not> unused then Inl TypeError
         else if int INT_MAX < \<bar>k\<bar> then Inl OverflowError
         else fmt_scan PStarP (sp\<lparr>f_prec := Some (nat k)\<rparr>) False k cs)
      else if ph = PDot \<and> is_digit c then
        fmt_scan PPrec (sp\<lparr>f_prec := Some (digit_val c)\<rparr>) unused k cs
      else if ph = PPrec \<and> is_digit c then
        (if (INT_MAX - digit_val c) div 10 < prec_val sp then Inl ValueError
         else fmt_scan PPrec
                (sp\<lparr>f_prec := Some (prec_val sp * 10 + digit_val c)\<rparr>) unused k cs)
      else if ph \<noteq> PLen \<and> (c = CHR ''h'' \<or> c = CHR ''l'' \<or> c = CHR ''L'') then
        fmt_scan PLen sp unused k cs
      else if c = CHR ''%'' then emit ''%'' (fmt_scan PText sp unused k cs)
      else if \<not> unused then Inl TypeError
      else if c = CHR ''d'' \<or> c = CHR ''i'' \<or> c = CHR ''u'' then
        emit (format_long sp k) (fmt_scan PText sp False k cs)
      else Inl ValueError)"

declare fmt_scan.simps [simp del]

definition py_format :: "string \<Rightarrow> int \<Rightarrow> exn + string" where
  "py_format fmt k = fmt_scan PText fspec0 True k fmt"

subsection \<open>The machine: files, external calls, and what the platform answers\<close>

text \<open>A \<^verbatim>\<open>pathlib\<close> path as the code builds it: \<^verbatim>\<open>Path(s)\<close> and \<^verbatim>\<open>p / name\<close>.\<close>

datatype path = Path string | Div path string

text \<open>
  Every call that leaves the process is recorded, in order. The first four are queries;
  the others create, render, run or delete.
\<close>

datatype event =
    Which string
  | PathExists path
  | Rglob path string
  | OsPathExists string
  | Mkdtemp
  | FromTgs string
  | SaveFrame string int int int
  | Spawn "string list"
  | Rmtree string

record world =
  files :: "string set"
  trace :: "event list"

definition log_event :: "event \<Rightarrow> world \<Rightarrow> world" where
  "log_event e w = w\<lparr>trace := trace w @ [e]\<rparr>"

text \<open>
  What \<^verbatim>\<open>LottieAnimation.from_tgs\<close> hands back: the frame count, the frame rate, and which
  frame numbers the renderer can draw.
\<close>

record anim =
  total_frames :: int
  framerate :: c_double
  renders :: "int \<Rightarrow> bool"

text \<open>
  The end of an encoder process: it could not be started, it exited with a status, its
  error stream and the files it left, or it never exits (the code sets no timeout).
\<close>

datatype proc_result = LaunchFails exn | Exits int string "string set" | NeverExits

record env =
  which :: "string \<Rightarrow> string option"
  environ :: "string \<Rightarrow> string option"
  path_exists :: "path \<Rightarrow> bool"
  rglob :: "path \<Rightarrow> string \<Rightarrow> exn + string list"
  rlottie_python :: bool
  from_tgs :: "string \<Rightarrow> exn + anim"
  writable :: "string \<Rightarrow> bool"
  mkdtemp :: "string set \<Rightarrow> exn + string"
  spawn :: "string list \<Rightarrow> string set \<Rightarrow> proc_result"
  decodes :: "string \<Rightarrow> bool"
  removable :: "string \<Rightarrow> bool"

text \<open>
  \<open>rglob\<close> gives the matches as \<^verbatim>\<open>str(found)\<close>, in the order the generator yields them,
  or the exception the scan raises before its first match; \<^verbatim>\<open>next\<close> asks for one element
  only. \<open>rlottie_python\<close> is false when the import at the top of the module failed.
\<close>

subsection \<open>The file system\<close>

text \<open>
  Files and directories are a set of path strings. A path is under a directory when it
  is the directory or lies below it; a directory exists when anything under it does.
\<close>

definition dir_prefix :: "string \<Rightarrow> string" where
  "dir_prefix d = (if d = [] \<or> last d = CHR ''/'' then d else d @ ''/'')"

definition under :: "string \<Rightarrow> string \<Rightarrow> bool" where
  "under d p = (p = d \<or> strict_prefix (dir_prefix d) p)"

definition os_path_exists :: "string set \<Rightarrow> string \<Rightarrow> bool" where
  "os_path_exists fs d = (\<exists>p\<in>fs. under d p)"

text \<open>
  \<^verbatim>\<open>shutil.rmtree(d, ignore_errors=True)\<close>: every path under \<open>d\<close> that can be removed
  is removed, the others stay and no error is reported; \<open>d\<close> itself stays when
  something below it stays.
\<close>

definition rmtree :: "env \<Rightarrow> string \<Rightarrow> string set \<Rightarrow> string set" where
  "rmtree env d fs =
     (let kept = {p \<in> fs. under d p \<and> p \<noteq> d \<and> \<not> removable env p}
      in {p \<in> fs. \<not> under d p} \<union> kept \<union>
         (if d \<in> fs \<and> (kept \<noteq> {} \<or> \<not> removable env d) then {d} else {}))"

text \<open>\<^verbatim>\<open>tempfile.mkdtemp()\<close>: a new directory, or the error of the platform.\<close>

definition mk_temp :: "env \<Rightarrow> world \<Rightarrow> string outcome \<times> world" where
  "mk_temp env w =
     (case mkdtemp env (files w) of
        Inl e \<Rightarrow> (Raises e, log_event Mkdtemp w)
      | Inr d \<Rightarrow> (Returns d, log_event Mkdtemp (w\<lparr>files := insert d (files w)\<rparr>)))"

text \<open>\<^verbatim>\<open>anim.save_frame(name, frame_num=i, width=wd, height=ht)\<close>.\<close>

definition save_frame ::
  "env \<Rightarrow> anim \<Rightarrow> string \<Rightarrow> int \<Rightarrow> int \<Rightarrow> int \<Rightarrow> world \<Rightarrow> unit outcome \<times> world" where
  "save_frame env a name i wd ht w =
     (let w1 = log_event (SaveFrame name i wd ht) w
      in if \<not> renders a i then (Raises RuntimeError, w1)
         else if \<not> writable env name then (Raises OSError, w1)
         else (Returns (), w1\<lparr>files := insert name (files w1)\<rparr>))"

subsection \<open>\<^verbatim>\<open>DependencyManager.get_ffmpeg_path\<close>\<close>

definition get_ffmpeg_path :: "env \<Rightarrow> world \<Rightarrow> string option outcome \<times> world" where
  "get_ffmpeg_path env w =
     (let w1 = log_event (Which ''ffmpeg'') w
      in if truthy (which env ''ffmpeg'') then (Returns (Some ''ffmpeg''), w1)
         else
           let local_appdata =
                 (case environ env ''LOCALAPPDATA'' of None \<Rightarrow> [] | Some v \<Rightarrow> v)
           in if local_appdata \<noteq> [] then
                let winget_path =
                      Div (Div (Div (Path local_appdata) ''Microsoft'') ''WinGet'') ''Packages'';
                    w2 = log_event (PathExists winget_path) w1
                in if path_exists env winget_path then
                     (let w3 = log_event (Rglob winget_path ''ffmpeg.exe'') w2
                      in case rglob env winget_path ''ffmpeg.exe'' of
                           Inl e \<Rightarrow> (Returns None, w3)
                         | Inr [] \<Rightarrow> (Returns None, w3)
                         | Inr (found # rest) \<Rightarrow> (Returns (Some found), w3))
                   else (Returns None, w2)
              else (Returns None, w1))"

subsection \<open>\<^verbatim>\<open>MediaConverter._run_ffmpeg\<close>\<close>

text \<open>The body of the \<^verbatim>\<open>try\<close>: launching, waiting, decoding the error stream.\<close>

definition run_ffmpeg_try :: "env \<Rightarrow> world \<Rightarrow> string list \<Rightarrow> bool outcome \<times> world" where
  "run_ffmpeg_try env w cmd =
     (let w1 = log_event (Spawn cmd) w
      in case spawn env cmd (files w) of
           LaunchFails e \<Rightarrow> (Raises e, w1)
         | NeverExits \<Rightarrow> (Hangs, w1)
         | Exits returncode stderr fs \<Rightarrow>
             (let w2 = w1\<lparr>files := fs\<rparr>
              in if returncode \<noteq> 0 then
                   (if decodes env stderr then (Returns False, w2)
                    else (Raises UnicodeDecodeError, w2))
                 else (Returns True, w2)))"

definition run_ffmpeg :: "env \<Rightarrow> world \<Rightarrow> string list \<Rightarrow> bool outcome \<times> world" where
  "run_ffmpeg env w cmd =
     (case run_ffmpeg_try env w cmd of
        (Raises e, w') \<Rightarrow> (Returns False, w')
      | (r, w') \<Rightarrow> (r, w'))"

subsection \<open>\<^verbatim>\<open>MediaConverter.render_tgs\<close>\<close>

text \<open>The \<^verbatim>\<open>for\<close> loop over the frame numbers.\<close>

fun save_frames ::
  "env \<Rightarrow> anim \<Rightarrow> string \<Rightarrow> int \<Rightarrow> int list \<Rightarrow> world \<Rightarrow> unit outcome \<times> world" where
  "save_frames env a ptrn step [] w = (Returns (), w)"
| "save_frames env a ptrn step (i # rest) w =
     (case py_format ptrn (i div step) of
        Inl e \<Rightarrow> (Raises e, w)
      | Inr name \<Rightarrow>
          (case save_frame env a name i RENDER_WIDTH RENDER_HEIGHT w of
             (Returns u, w') \<Rightarrow> save_frames env a ptrn step rest w'
           | (Raises e, w') \<Rightarrow> (Raises e, w')
           | (Hangs, w') \<Rightarrow> (Hangs, w')))"

text \<open>The body of the \<^verbatim>\<open>try\<close>.\<close>

definition render_tgs_try ::
  "env \<Rightarrow> world \<Rightarrow> string \<Rightarrow> string \<Rightarrow> (string option \<times> int) outcome \<times> world" where
  "render_tgs_try env w tgs_path output_dir =
     (let w1 = log_event (FromTgs tgs_path) w
      in case from_tgs env tgs_path of
           Inl e \<Rightarrow> (Raises e, w1)
         | Inr a \<Rightarrow>
             (case py_int (framerate a) of
                Inl e \<Rightarrow> (Raises e, w1)
              | Inr native_fps \<Rightarrow>
                  (let step = 2;
                       out_fps = native_fps div step;
                       ptrn = os_path_join output_dir ''frame_%04d.png''
                   in case save_frames env a ptrn step (py_range 0 (total_frames a) step) w1 of
                        (Returns u, w2) \<Rightarrow> (Returns (Some ptrn, out_fps), w2)
                      | (Raises e, w2) \<Rightarrow> (Raises e, w2)
                      | (Hangs, w2) \<Rightarrow> (Hangs, w2))))"

definition render_tgs ::
  "env \<Rightarrow> world \<Rightarrow> string \<Rightarrow> string \<Rightarrow> (string option \<times> int) outcome \<times> world" where
  "render_tgs env w tgs_path output_dir =
     (if \<not> rlottie_python env then (Returns (None, 0), w)
      else case render_tgs_try env w tgs_path output_dir of
             (Raises e, w') \<Rightarrow> (Returns (None, 0), w')
           | (r, w') \<Rightarrow> (r, w'))"

subsection \<open>\<^verbatim>\<open>MediaConverter.to_gif\<close> and \<^verbatim>\<open>MediaConverter.to_mp4\<close>\<close>

text \<open>
  The \<^verbatim>\<open>finally\<close> clause of both: \<^verbatim>\<open>temp_dir\<close> is \<^verbatim>\<open>None\<close> until \<^verbatim>\<open>mkdtemp\<close> has returned.
\<close>

definition cleanup :: "env \<Rightarrow> string option \<Rightarrow> world \<Rightarrow> world" where
  "cleanup env temp_dir w =
     (case temp_dir of
        None \<Rightarrow> w
      | Some d \<Rightarrow>
          if d = [] then w
          else (let w1 = log_event (OsPathExists d) w
                in if os_path_exists (files w1) d
                   then (log_event (Rmtree d) w1)\<lparr>files := rmtree env d (files w1)\<rparr>
                   else w1))"

text \<open>
  The body of the \<^verbatim>\<open>try\<close> of \<^verbatim>\<open>to_gif\<close>. Beside its outcome it gives the value of
  \<^verbatim>\<open>temp_dir\<close> at the moment it is left, which the \<^verbatim>\<open>finally\<close> clause reads.
\<close>

definition to_gif_try ::
  "env \<Rightarrow> world \<Rightarrow> string \<Rightarrow> string \<Rightarrow> string \<Rightarrow> bool
     \<Rightarrow> bool outcome \<times> string option \<times> world" where
  "to_gif_try env w bin_path in_path out_path is_tgs =
     (let cmd = [bin_path, ''-y''];
          encode = (\<lambda>cmd temp_dir w.
            let vf = ''fps='' @ py_str TARGET_FPS @ '',scale=512:512:flags=lanczos,''
                     @ ''pad=912:512:(ow-iw)/2:(oh-ih)/2:black,''
                     @ ''split[s0][s1];[s0]palettegen[p];[s1][p]paletteuse'';
                cmd = cmd @ [''-vf'', vf, ''-loop'', ''0'', out_path]
            in case run_ffmpeg env w cmd of (r, w') \<Rightarrow> (r, temp_dir, w'))
      in if is_tgs then
           (case mk_temp env w of
              (Raises e, w1) \<Rightarrow> (Raises e, None, w1)
            | (Hangs, w1) \<Rightarrow> (Hangs, None, w1)
            | (Returns temp_dir, w1) \<Rightarrow>
                (case render_tgs env w1 in_path temp_dir of
                   (Raises e, w2) \<Rightarrow> (Raises e, Some temp_dir, w2)
                 | (Hangs, w2) \<Rightarrow> (Hangs, Some temp_dir, w2)
                 | (Returns (ptrn, fps), w2) \<Rightarrow>
                     if \<not> truthy ptrn then (Returns False, Some temp_dir, w2)
                     else (case ptrn of
                             None \<Rightarrow> (Returns False, Some temp_dir, w2)
                           | Some p \<Rightarrow>
                               encode (cmd @ [''-framerate'', py_str fps, ''-i'', p])
                                 (Some temp_dir) w2)))
         else encode (cmd @ [''-i'', in_path]) None w)"

definition to_gif ::
  "env \<Rightarrow> world \<Rightarrow> string \<Rightarrow> string \<Rightarrow> bool \<Rightarrow> bool outcome \<times> world" where
  "to_gif env w in_path out_path is_tgs =
     (case get_ffmpeg_path env w of
        (Raises e, w0) \<Rightarrow> (Raises e, w0)
      | (Hangs, w0) \<Rightarrow> (Hangs, w0)
      | (Returns bin_path, w0) \<Rightarrow>
          if \<not> truthy bin_path then (Returns False, w0)
          else (case bin_path of
                  None \<Rightarrow> (Returns False, w0)
                | Some b \<Rightarrow>
                    (case to_gif_try env w0 b in_path out_path is_tgs of
                       (Hangs, temp_dir, w1) \<Rightarrow> (Hangs, w1)
                     | (r, temp_dir, w1) \<Rightarrow> (r, cleanup env temp_dir w1))))"

definition to_mp4_try ::
  "env \<Rightarrow> world \<Rightarrow> string \<Rightarrow> string \<Rightarrow> string \<Rightarrow> bool
     \<Rightarrow> bool outcome \<times> string option \<times> world" where
  "to_mp4_try env w bin_path in_path out_path is_tgs =
     (let cmd = [bin_path, ''-y''];
          encode = (\<lambda>cmd temp_dir w.
            let cmd = cmd @ [''-c:v'', ''libx264'',
                             ''-pix_fmt'', ''yuv420p'',
                             ''-crf'', FFMPEG_CRF,
                             ''-preset'', FFMPEG_PRESET];
                vf = ''scale=512:512:force_original_aspect_ratio=decrease,''
                     @ ''pad=912:512:(ow-iw)/2:(oh-ih)/2:black'';
                cmd = cmd @ [''-vf'', vf, out_path]
            in case run_ffmpeg env w cmd of (r, w') \<Rightarrow> (r, temp_dir, w'))
      in if is_tgs then
           (case mk_temp env w of
              (Raises e, w1) \<Rightarrow> (Raises e, None, w1)
            | (Hangs, w1) \<Rightarrow> (Hangs, None, w1)
            | (Returns temp_dir, w1) \<Rightarrow>
                (case render_tgs env w1 in_path temp_dir of
                   (Raises e, w2) \<Rightarrow> (Raises e, Some temp_dir, w2)
                 | (Hangs, w2) \<Rightarrow> (Hangs, Some temp_dir, w2)
                 | (Returns (ptrn, fps), w2) \<Rightarrow>
                     if \<not> truthy ptrn then (Returns False, Some temp_dir, w2)
                     else (case ptrn of
                             None \<Rightarrow> (Returns False, Some temp_dir, w2)
                           | Some p \<Rightarrow>
                               encode (cmd @ [''-framerate'', py_str fps, ''-i'', p])
                                 (Some temp_dir) w2)))
         else encode (cmd @ [''-i'', in_path]) None w)"

definition to_mp4 ::
  "env \<Rightarrow> world \<Rightarrow> string \<Rightarrow> string \<Rightarrow> bool \<Rightarrow> bool outcome \<times> world" where
  "to_mp4 env w in_path out_path is_tgs =
     (case get_ffmpeg_path env w of
        (Raises e, w0) \<Rightarrow> (Raises e, w0)
      | (Hangs, w0) \<Rightarrow> (Hangs, w0)
      | (Returns bin_path, w0) \<Rightarrow>
          if \<not> truthy bin_path then (Returns False, w0)
          else (case bin_path of
                  None \<Rightarrow> (Returns False, w0)
                | Some b \<Rightarrow>
                    (case to_mp4_try env w0 b in_path out_path is_tgs of
                       (Hangs, temp_dir, w1) \<Rightarrow> (Hangs, w1)
                     | (r, temp_dir, w1) \<Rightarrow> (r, cleanup env temp_dir w1))))"

subsection \<open>Notions used in the statements\<close>

text \<open>
  The name of the \<open>k\<close>-th frame as the specification describes it: \<^verbatim>\<open>frame_\<close>, the number
  in decimal filled with zeros to four digits, \<^verbatim>\<open>.png\<close>, in the output directory.
\<close>

definition pad4 :: "nat \<Rightarrow> string" where
  "pad4 k = replicate (4 - length (dec_digits k)) CHR ''0'' @ dec_digits k"

definition frame_file :: "string \<Rightarrow> nat \<Rightarrow> string" where
  "frame_file d k = os_path_join d (''frame_'' @ pad4 k @ ''.png'')"


text \<open>The argument vectors of the encoder processes in a trace, in order.\<close>

fun spawned :: "event list \<Rightarrow> string list list" where
  "spawned [] = []"
| "spawned (Spawn cmd # es) = cmd # spawned es"
| "spawned (e # es) = spawned es"

text \<open>The queries of the dependency locator.\<close>

fun is_query :: "event \<Rightarrow> bool" where
  "is_query (Which n) = True"
| "is_query (PathExists p) = True"
| "is_query (Rglob p n) = True"
| "is_query e = False"

text \<open>The events of the rasterizer.\<close>

fun is_render :: "event \<Rightarrow> bool" where
  "is_render (FromTgs p) = True"
| "is_render (SaveFrame n i wd ht) = True"
| "is_render e = False"

subsection \<open>The pipeline in the words of the specification\<close>

text \<open>
  The orchestrator as the specification describes it, with the command line as a
  parameter: resolve the tool; prepare the input (a temporary directory and the
  rasterizer when the input is a vector animation); encode; clean up; return. The two
  methods of the code are shown below to be instances of it, and the properties common to
  both are proved once.
\<close>

definition prepare_input ::
  "env \<Rightarrow> world \<Rightarrow> string \<Rightarrow> bool \<Rightarrow> string list option outcome \<times> string option \<times> world" where
  "prepare_input env w in_path is_tgs =
     (if is_tgs then
        (case mk_temp env w of
           (Raises e, w1) \<Rightarrow> (Raises e, None, w1)
         | (Hangs, w1) \<Rightarrow> (Hangs, None, w1)
         | (Returns d, w1) \<Rightarrow>
             (case render_tgs env w1 in_path d of
                (Raises e, w2) \<Rightarrow> (Raises e, Some d, w2)
              | (Hangs, w2) \<Rightarrow> (Hangs, Some d, w2)
              | (Returns (ptrn, fps), w2) \<Rightarrow>
                  (case ptrn of
                     None \<Rightarrow> (Returns None, Some d, w2)
                   | Some p \<Rightarrow>
                       if p = [] then (Returns None, Some d, w2)
                       else (Returns (Some [''-framerate'', py_str fps, ''-i'', p]),
                             Some d, w2))))
      else (Returns (Some [''-i'', in_path]), None, w))"

definition convert ::
  "env \<Rightarrow> world \<Rightarrow> (string \<Rightarrow> string list \<Rightarrow> string list) \<Rightarrow> string \<Rightarrow> bool
     \<Rightarrow> bool outcome \<times> world" where
  "convert env w command in_path is_tgs =
     (case get_ffmpeg_path env w of
        (Raises e, w0) \<Rightarrow> (Raises e, w0)
      | (Hangs, w0) \<Rightarrow> (Hangs, w0)
      | (Returns None, w0) \<Rightarrow> (Returns False, w0)
      | (Returns (Some bin), w0) \<Rightarrow>
          if bin = [] then (Returns False, w0)
          else (case prepare_input env w0 in_path is_tgs of
                  (Raises e, temp_dir, w1) \<Rightarrow> (Raises e, cleanup env temp_dir w1)
                | (Hangs, temp_dir, w1) \<Rightarrow> (Hangs, w1)
                | (Returns None, temp_dir, w1) \<Rightarrow> (Returns False, cleanup env temp_dir w1)
                | (Returns (Some input), temp_dir, w1) \<Rightarrow>
                    (case run_ffmpeg env w1 (command bin input) of
                       (Hangs, w2) \<Rightarrow> (Hangs, w2)
                     | (r, w2) \<Rightarrow> (r, cleanup env temp_dir w2))))"

definition gif_command :: "string \<Rightarrow> string \<Rightarrow> string list \<Rightarrow> string list" where
  "gif_command out_path bin input =
     [bin, ''-y''] @ input @
     [''-vf'',
      ''fps=30,scale=512:512:flags=lanczos,pad=912:512:(ow-iw)/2:(oh-ih)/2:black,split[s0][s1];[s0]palettegen[p];[s1][p]paletteuse'',
      ''-loop'', ''0'', out_path]"

definition mp4_command :: "string \<Rightarrow> string \<Rightarrow> string list \<Rightarrow> string list" where
  "mp4_command out_path bin input =
     [bin, ''-y''] @ input @
     [''-c:v'', ''libx264'', ''-pix_fmt'', ''yuv420p'', ''-crf'', ''18'', ''-preset'', ''slow'',
      ''-vf'',
      ''scale=512:512:force_original_aspect_ratio=decrease,pad=912:512:(ow-iw)/2:(oh-ih)/2:black'',
      out_path]"

text \<open>The events of the clean-up step, and of the preparation of a vector animation.\<close>

fun is_cleanup :: "event \<Rightarrow> bool" where
  "is_cleanup (OsPathExists d) = True"
| "is_cleanup (Rmtree d) = True"
| "is_cleanup e = False"

fun is_prepare :: "event \<Rightarrow> bool" where
  "is_prepare Mkdtemp = True"
| "is_prepare (FromTgs p) = True"
| "is_prepare (SaveFrame n i wd ht) = True"
| "is_prepare e = False"

fun is_spawn :: "event \<Rightarrow> bool" where
  "is_spawn (Spawn cmd) = True"
| "is_spawn e = False"

text \<open>
  \<open>appended P w w'\<close>: the trace of \<open>w'\<close> is the trace of \<open>w\<close> followed by events that
  all satisfy \<open>P\<close>.
\<close>

definition appended :: "(event \<Rightarrow> bool) \<Rightarrow> world \<Rightarrow> world \<Rightarrow> bool" where
  "appended P w w' \<longleftrightarrow> (\<exists>evs. trace w' = trace w @ evs \<and> list_all P evs)"

text \<open>
  The events a conversion of a plain video may add: the queries of the locator and an
  encoder process whose last argument is the output path.
\<close>

definition encoder_only :: "string \<Rightarrow> event \<Rightarrow> bool" where
  "encoder_only out_path e \<longleftrightarrow> is_query e \<or> (\<exists>cmd. e = Spawn cmd \<and> last cmd = out_path)"

subsection \<open>A sample machine\<close>

text \<open>
  An animation of three frames at 60 frames per second, an encoder on the search path
  that exits with status 0 and writes its last argument, and a temporary directory
  \<^verbatim>\<open>/tmp/tmpq\<close>. The variants differ in one answer each.
\<close>

definition demo_anim :: anim where
  "demo_anim = \<lparr>total_frames = 3, framerate = Finite 60, renders = (\<lambda>i. 0 \<le> i \<and> i < 3)\<rparr>"

definition demo_env :: env where
  "demo_env =
     \<lparr>which = (\<lambda>n. if n = ''ffmpeg'' then Some ''/usr/bin/ffmpeg'' else None),
      environ = (\<lambda>n. None),
      path_exists = (\<lambda>p. False),
      rglob = (\<lambda>p n. Inr []),
      rlottie_python = True,
      from_tgs = (\<lambda>p. if p = ''in.tgs'' then Inr demo_anim else Inl ValueError),
      writable = (\<lambda>p. True),
      mkdtemp = (\<lambda>fs. Inr ''/tmp/tmpq''),
      spawn = (\<lambda>cmd fs. if cmd = [] then LaunchFails OSError
                          else Exits 0 [] (insert (last cmd) fs)),
      decodes = (\<lambda>s. True),
      removable = (\<lambda>p. True)\<rparr>"

definition locked_env :: env where
  "locked_env = demo_env\<lparr>removable := (\<lambda>p. False)\<rparr>"


definition noenc_env :: env where
  "noenc_env = demo_env\<lparr>which := (\<lambda>n. None)\<rparr>"


definition failing_env :: env where
  "failing_env = demo_env\<lparr>spawn := (\<lambda>cmd fs. Exits 1 ''error'' fs)\<rparr>"

definition hanging_env :: env where
  "hanging_env = demo_env\<lparr>spawn := (\<lambda>cmd fs. NeverExits)\<rparr>"

definition demo_world :: world where
  "demo_world = \<lparr>files = {''in.tgs'', ''in.webm''}, trace = []\<rparr>"


definition norlottie_env :: env where
  "norlottie_env = demo_env\<lparr>rlottie_python := False\<rparr>"

definition short_anim :: anim where
  "short_anim = demo_anim\<lparr>total_frames := 5\<rparr>"

definition short_env :: env where
  "short_env = demo_env\<lparr>from_tgs := (\<lambda>p. Inr short_anim)\<rparr>"

definition empty_anim :: anim where
  "empty_anim = demo_anim\<lparr>total_frames := 0\<rparr>"

definition empty_env :: env where
  "empty_env = demo_env\<lparr>from_tgs := (\<lambda>p. Inr empty_anim)\<rparr>"

text \<open>The animation of the end-to-end scenario: 64 frames at 60 frames per second.\<close>

definition scenario_anim :: anim where
  "scenario_anim =
     \<lparr>total_frames = 64, framerate = Finite 60, renders = (\<lambda>i. 0 \<le> i \<and> i < 64)\<rparr>"

definition scenario_env :: env where
  "scenario_env = demo_env\<lparr>from_tgs := (\<lambda>p. Inr scenario_anim)\<rparr>"

section \<open>Properties\<close>

subsection \<open>The encoder invoker\<close>

lemma run_ffmpeg_try_cases:
  "run_ffmpeg_try env w cmd =
     (case spawn env cmd (files w) of
        LaunchFails e \<Rightarrow> (Raises e, log_event (Spawn cmd) w)
      | NeverExits \<Rightarrow> (Hangs, log_event (Spawn cmd) w)
      | Exits rc err fs \<Rightarrow>
          (if rc = 0 then Returns True
           else if decodes env err then Returns False else Raises UnicodeDecodeError,
           (log_event (Spawn cmd) w)\<lparr>files := fs\<rparr>))"
  by (simp add: run_ffmpeg_try_def Let_def split: proc_result.splits)

lemma run_ffmpeg_cases:
  "run_ffmpeg env w cmd =
     (case spawn env cmd (files w) of
        LaunchFails e \<Rightarrow> (Returns False, log_event (Spawn cmd) w)
      | NeverExits \<Rightarrow> (Hangs, log_event (Spawn cmd) w)
      | Exits rc err fs \<Rightarrow> (Returns (rc = 0), (log_event (Spawn cmd) w)\<lparr>files := fs\<rparr>))"
  by (simp add: run_ffmpeg_def run_ffmpeg_try_cases split: proc_result.splits)

text \<open>
  Claim C2. \<^verbatim>\<open>_run_ffmpeg\<close> returns true exactly when the process it started exits with
  status 0. A status other than 0 gives false, and so does a failure to start the
  process, which is caught: no exception leaves the function.
\<close>

theorem run_ffmpeg_exit_status:
  "(fst (run_ffmpeg env w cmd) = Returns True
      \<longleftrightarrow> (\<exists>err fs. spawn env cmd (files w) = Exits 0 err fs))
   \<and> (\<forall>rc err fs. spawn env cmd (files w) = Exits rc err fs \<and> rc \<noteq> 0
         \<longrightarrow> fst (run_ffmpeg env w cmd) = Returns False)
   \<and> (\<forall>e. spawn env cmd (files w) = LaunchFails e
         \<longrightarrow> fst (run_ffmpeg env w cmd) = Returns False)
   \<and> (\<forall>e. fst (run_ffmpeg env w cmd) \<noteq> Raises e)"
  by (cases "spawn env cmd (files w)") (simp_all add: run_ffmpeg_cases)

theorem run_ffmpeg_exit_status_witness:
  "fst (run_ffmpeg demo_env demo_world [''ffmpeg'', ''-y'']) = Returns True
   \<and> fst (run_ffmpeg failing_env demo_world [''ffmpeg'', ''-y'']) = Returns False
   \<and> fst (run_ffmpeg demo_env demo_world []) = Returns False"
proof -
  have a: "spawn demo_env [''ffmpeg'', ''-y''] (files demo_world) = Exits 0 [] (insert ''-y'' (files demo_world))"
    by (simp add: demo_env_def)
  have b: "spawn failing_env [''ffmpeg'', ''-y''] (files demo_world) = Exits 1 ''error'' (files demo_world)"
    by (simp add: failing_env_def demo_env_def)
  have c: "spawn demo_env [] (files demo_world) = LaunchFails OSError"
    by (simp add: demo_env_def)
  from a run_ffmpeg_exit_status [of demo_env demo_world "[''ffmpeg'', ''-y'']"]
  have "fst (run_ffmpeg demo_env demo_world [''ffmpeg'', ''-y'']) = Returns True" by blast
  moreover from b run_ffmpeg_exit_status [of failing_env demo_world "[''ffmpeg'', ''-y'']"]
  have "fst (run_ffmpeg failing_env demo_world [''ffmpeg'', ''-y'']) = Returns False" by simp
  moreover from c run_ffmpeg_exit_status [of demo_env demo_world "[]"]
  have "fst (run_ffmpeg demo_env demo_world []) = Returns False" by blast
  ultimately show ?thesis by simp
qed

subsection \<open>The dependency locator\<close>

lemma get_ffmpeg_path_returns: "\<exists>r. fst (get_ffmpeg_path env w) = Returns r"
  by (simp add: get_ffmpeg_path_def Let_def split: option.splits sum.splits list.splits)

lemma get_ffmpeg_path_files: "files (snd (get_ffmpeg_path env w)) = files w"
  by (simp add: get_ffmpeg_path_def Let_def log_event_def split: option.splits sum.splits list.splits)



subsection \<open>The rasterizer adapter: failures\<close>

lemma save_frame_cases:
  "save_frame env a name i wd ht w =
     (if \<not> renders a i then (Raises RuntimeError, log_event (SaveFrame name i wd ht) w)
      else if \<not> writable env name then (Raises OSError, log_event (SaveFrame name i wd ht) w)
      else (Returns (), w\<lparr>files := insert name (files w),
                            trace := trace w @ [SaveFrame name i wd ht]\<rparr>))"
  by (simp add: save_frame_def Let_def log_event_def)

lemma save_frames_not_hangs: "fst (save_frames env a ptrn s idxs w) \<noteq> Hangs"
  by (induction idxs arbitrary: w) (auto simp: save_frame_cases split: sum.splits)

lemma save_frames_returns_all:
  "fst (save_frames env a ptrn s idxs w) = Returns u \<Longrightarrow>
   \<forall>i\<in>set idxs. \<exists>name. py_format ptrn (i div s) = Inr name \<and> renders a i \<and> writable env name"
  by (induction idxs arbitrary: w) (auto simp: save_frame_cases split: sum.splits if_splits)

lemma save_frames_fails:
  assumes "i \<in> set idxs"
    and "\<not> renders a i \<or> (\<exists>e. py_format ptrn (i div s) = Inl e)
         \<or> (\<exists>name. py_format ptrn (i div s) = Inr name \<and> \<not> writable env name)"
  shows "\<exists>e. fst (save_frames env a ptrn s idxs w) = Raises e"
proof (cases "fst (save_frames env a ptrn s idxs w)")
  case (Returns u)
  from save_frames_returns_all [OF this] assms show ?thesis by fastforce
next
  case (Raises e)
  then show ?thesis by simp
next
  case Hangs
  then show ?thesis by (simp add: save_frames_not_hangs)
qed

lemma save_frames_not_hangs_pair: "save_frames env a ptrn s idxs w \<noteq> (Hangs, w')"
  using save_frames_not_hangs [of env a ptrn s idxs w] by (cases "save_frames env a ptrn s idxs w") auto

lemma render_tgs_try_not_hangs: "fst (render_tgs_try env w p d) \<noteq> Hangs"
  by (auto simp: render_tgs_try_def Let_def save_frames_not_hangs_pair
      split: sum.splits prod.splits outcome.splits)

lemma render_tgs_returns: "\<exists>r. fst (render_tgs env w p d) = Returns r"
proof (cases "rlottie_python env")
  case False
  then show ?thesis by (simp add: render_tgs_def)
next
  case True
  show ?thesis
  proof (cases "render_tgs_try env w p d")
    case (Pair r w')
    with True render_tgs_try_not_hangs [of env w p d] show ?thesis
      by (cases r) (simp_all add: render_tgs_def)
  qed
qed

lemma render_tgs_catches:
  "fst (render_tgs_try env w p d) = Raises e \<Longrightarrow> fst (render_tgs env w p d) = Returns (None, 0)"
  by (cases "render_tgs_try env w p d") (simp add: render_tgs_def)

lemma render_tgs_try_load_fails:
  "from_tgs env p = Inl e \<Longrightarrow> fst (render_tgs_try env w p d) = Raises e"
  by (simp add: render_tgs_try_def Let_def)

lemma render_tgs_try_frame_fails:
  assumes "from_tgs env p = Inr a"
    and "i \<in> set (py_range 0 (total_frames a) 2)"
    and "\<not> renders a i \<or> (\<exists>e. py_format (os_path_join d ''frame_%04d.png'') (i div 2) = Inl e)
         \<or> (\<exists>name. py_format (os_path_join d ''frame_%04d.png'') (i div 2) = Inr name
                \<and> \<not> writable env name)"
  shows "\<exists>e. fst (render_tgs_try env w p d) = Raises e"
proof (cases "py_int (framerate a)")
  case (Inl e)
  with assms(1) show ?thesis by (simp add: render_tgs_try_def Let_def)
next
  case (Inr fps)
  from save_frames_fails [OF assms(2) assms(3), where w = "log_event (FromTgs p) w"]
  obtain e where "fst (save_frames env a (os_path_join d ''frame_%04d.png'') 2
                        (py_range 0 (total_frames a) 2) (log_event (FromTgs p) w)) = Raises e"
    by blast
  with assms(1) Inr show ?thesis
    by (auto simp: render_tgs_try_def Let_def split: prod.splits outcome.splits)
qed

text \<open>
  Claim C7. \<^verbatim>\<open>render_tgs\<close> always returns. Without the rlottie binding it returns
  \<^verbatim>\<open>(None, 0)\<close> at once and calls nothing: the machine is unchanged. Every exception of
  the \<^verbatim>\<open>try\<close> body becomes \<^verbatim>\<open>(None, 0)\<close>; in particular a container that cannot be
  loaded, a frame the renderer cannot draw, a frame name that cannot be formatted and a
  frame file that cannot be written.
\<close>

theorem render_tgs_never_raises:
  "(\<exists>r. fst (render_tgs env w p d) = Returns r)
   \<and> (\<not> rlottie_python env \<longrightarrow> render_tgs env w p d = (Returns (None, 0), w))
   \<and> (\<forall>e. fst (render_tgs_try env w p d) = Raises e
         \<longrightarrow> fst (render_tgs env w p d) = Returns (None, 0))
   \<and> (\<forall>e. from_tgs env p = Inl e \<longrightarrow> fst (render_tgs env w p d) = Returns (None, 0))
   \<and> (\<forall>a i. from_tgs env p = Inr a \<and> i \<in> set (py_range 0 (total_frames a) 2)
         \<and> (\<not> renders a i
             \<or> (\<exists>e. py_format (os_path_join d ''frame_%04d.png'') (i div 2) = Inl e)
             \<or> (\<exists>name. py_format (os_path_join d ''frame_%04d.png'') (i div 2) = Inr name
                    \<and> \<not> writable env name))
         \<longrightarrow> fst (render_tgs env w p d) = Returns (None, 0))"
proof (intro conjI allI impI)
  show "\<exists>r. fst (render_tgs env w p d) = Returns r"
    by (rule render_tgs_returns)
  show "render_tgs env w p d = (Returns (None, 0), w)" if "\<not> rlottie_python env"
    using that by (simp add: render_tgs_def)
  show "fst (render_tgs env w p d) = Returns (None, 0)"
    if "fst (render_tgs_try env w p d) = Raises e" for e
    using that by (rule render_tgs_catches)
  show "fst (render_tgs env w p d) = Returns (None, 0)" if "from_tgs env p = Inl e" for e
  proof (cases "rlottie_python env")
    case True
    from render_tgs_try_load_fails [OF that] show ?thesis by (rule render_tgs_catches)
  next
    case False
    then show ?thesis by (simp add: render_tgs_def)
  qed
  show "fst (render_tgs env w p d) = Returns (None, 0)"
    if h: "from_tgs env p = Inr a \<and> i \<in> set (py_range 0 (total_frames a) 2)
         \<and> (\<not> renders a i
             \<or> (\<exists>e. py_format (os_path_join d ''frame_%04d.png'') (i div 2) = Inl e)
             \<or> (\<exists>name. py_format (os_path_join d ''frame_%04d.png'') (i div 2) = Inr name
                    \<and> \<not> writable env name))" for a i
  proof (cases "rlottie_python env")
    case True
    from h render_tgs_try_frame_fails [of env p a i d w]
    obtain e where "fst (render_tgs_try env w p d) = Raises e" by blast
    then show ?thesis by (rule render_tgs_catches)
  next
    case False
    then show ?thesis by (simp add: render_tgs_def)
  qed
qed

theorem render_tgs_never_raises_witness:
  "render_tgs norlottie_env demo_world ''in.tgs'' ''/tmp/tmpq'' = (Returns (None, 0), demo_world)
   \<and> fst (render_tgs demo_env demo_world ''bad.tgs'' ''/tmp/tmpq'') = Returns (None, 0)
   \<and> fst (render_tgs short_env demo_world ''in.tgs'' ''/tmp/tmpq'') = Returns (None, 0)"
proof -
  have a: "\<not> rlottie_python norlottie_env"
    by (simp add: norlottie_env_def demo_env_def)
  have b: "from_tgs demo_env ''bad.tgs'' = Inl ValueError"
    by (simp add: demo_env_def)
  have c: "from_tgs short_env ''in.tgs'' = Inr short_anim"
    "4 \<in> set (py_range 0 (total_frames short_anim) 2)"
    "\<not> renders short_anim 4"
    by (simp_all add: short_env_def short_anim_def demo_anim_def demo_env_def py_range.simps)
  from a render_tgs_never_raises [of norlottie_env demo_world "''in.tgs''" "''/tmp/tmpq''"]
  have "render_tgs norlottie_env demo_world ''in.tgs'' ''/tmp/tmpq'' = (Returns (None, 0), demo_world)"
    by blast
  moreover from b render_tgs_never_raises [of demo_env demo_world "''bad.tgs''" "''/tmp/tmpq''"]
  have "fst (render_tgs demo_env demo_world ''bad.tgs'' ''/tmp/tmpq'') = Returns (None, 0)"
    by blast
  moreover from c render_tgs_never_raises [of short_env demo_world "''in.tgs''" "''/tmp/tmpq''"]
  have "fst (render_tgs short_env demo_world ''in.tgs'' ''/tmp/tmpq'') = Returns (None, 0)"
    by blast
  ultimately show ?thesis by simp
qed

subsection \<open>The rasterizer adapter: frames and frame rate\<close>

lemma fmt_scan_text_step:
  "c \<noteq> CHR ''%'' \<Longrightarrow> fmt_scan PText sp u k (c # cs) = emit [c] (fmt_scan PText sp u k cs)"
  by (simp add: fmt_scan.simps)

lemma emit_emit: "emit a (emit b r) = emit (a @ b) r"
  by (cases r) (simp_all add: emit_def)

lemma emit_Nil: "emit [] r = r"
  by (cases r) (simp_all add: emit_def)

lemma fmt_scan_text_prefix:
  "CHR ''%'' \<notin> set d \<Longrightarrow>
   fmt_scan PText sp u k (d @ rest) = emit d (fmt_scan PText sp u k rest)"
proof (induction d)
  case Nil
  show ?case by (simp add: emit_Nil)
next
  case (Cons c d)
  then have "c \<noteq> CHR ''%''" and "CHR ''%'' \<notin> set d" by auto
  then show ?case
    using Cons.IH by (simp add: fmt_scan_text_step emit_emit)
qed

lemma fmt_frame_tail:
  "fmt_scan PText fspec0 True (int k) ''frame_%04d.png'' = Inr (''frame_'' @ pad4 k @ ''.png'')"
  by (simp add: fmt_scan.simps emit_def is_flag_def is_digit_def digit_val_def set_flag_def
      fspec0_def format_long_def pad4_def Let_def)

lemma py_format_pattern:
  assumes "CHR ''%'' \<notin> set d"
  shows "py_format (os_path_join d ''frame_%04d.png'') (int k) = Inr (frame_file d k)"
proof (cases "d = [] \<or> last d = CHR ''/''")
  case True
  then have j: "os_path_join d ''frame_%04d.png'' = d @ ''frame_%04d.png''"
    and f: "frame_file d k = d @ ''frame_'' @ pad4 k @ ''.png''"
    by (simp_all add: os_path_join_def frame_file_def)
  show ?thesis
    unfolding j f py_format_def
    by (simp add: fmt_scan_text_prefix [OF assms] fmt_frame_tail emit_def)
next
  case False
  then have j: "os_path_join d ''frame_%04d.png'' = (d @ ''/'') @ ''frame_%04d.png''"
    and f: "frame_file d k = (d @ ''/'') @ ''frame_'' @ pad4 k @ ''.png''"
    by (simp_all add: os_path_join_def frame_file_def)
  have "CHR ''%'' \<notin> set (d @ ''/'')" using assms by simp
  then have "fmt_scan PText fspec0 True (int k) ((d @ ''/'') @ ''frame_%04d.png'')
               = emit (d @ ''/'') (fmt_scan PText fspec0 True (int k) ''frame_%04d.png'')"
    by (rule fmt_scan_text_prefix)
  then show ?thesis
    unfolding j f py_format_def by (simp add: fmt_frame_tail emit_def)
qed

lemma py_range_even:
  "py_range (2 * int j) (int N) 2 = map (\<lambda>k. 2 * int k) [j..<(N + 1) div 2]"
proof (induction "(N + 1) div 2 - j" arbitrary: j)
  case 0
  then have "\<not> 2 * int j < int N" by linarith
  moreover from 0 have "[j..<(N + 1) div 2] = []" by simp
  ultimately show ?case by (subst py_range.simps) simp
next
  case (Suc n)
  then have lt: "j < (N + 1) div 2" by linarith
  then have small: "2 * int j < int N" by linarith
  have "n = (N + 1) div 2 - Suc j" using Suc by linarith
  then have ih: "py_range (2 * int (Suc j)) (int N) 2 = map (\<lambda>k. 2 * int k) [Suc j..<(N + 1) div 2]"
    by (rule Suc.hyps(1))
  have step: "2 * int j + 2 = 2 * int (Suc j)" by simp
  have upt: "[j..<(N + 1) div 2] = j # [Suc j..<(N + 1) div 2]"
    using lt by (rule upt_conv_Cons)
  have "py_range (2 * int j) (int N) 2 = 2 * int j # py_range (2 * int j + 2) (int N) 2"
    using small by (subst py_range.simps) simp
  also have "\<dots> = 2 * int j # map (\<lambda>k. 2 * int k) [Suc j..<(N + 1) div 2]"
    unfolding step ih ..
  also have "\<dots> = map (\<lambda>k. 2 * int k) [j..<(N + 1) div 2]"
    unfolding upt by simp
  finally show ?case .
qed

lemma half_up: "(N + 1) div 2 = nat \<lceil>real N / 2\<rceil>"
  by linarith

lemma py_range_frames:
  "py_range 0 (int N) 2 = map (\<lambda>k. 2 * int k) [0..<nat \<lceil>real N / 2\<rceil>]"
proof -
  have "py_range (2 * int 0) (int N) 2 = map (\<lambda>k. 2 * int k) [0..<(N + 1) div 2]"
    by (rule py_range_even)
  then show ?thesis unfolding half_up by simp
qed

lemma py_int_half:
  assumes "0 \<le> F \<or> F \<in> \<int>"
  shows "py_int (Finite F) = Inr \<lfloor>F\<rfloor>" and "\<lfloor>F\<rfloor> div 2 = \<lfloor>F / 2\<rfloor>"
proof -
  have "\<lceil>F\<rceil> = \<lfloor>F\<rfloor>" if "F \<in> \<int>"
    using that by (auto elim: Ints_cases)
  then show "py_int (Finite F) = Inr \<lfloor>F\<rfloor>" using assms by (auto simp: py_int_def)
  have "\<lfloor>F / real_of_int 2\<rfloor> = \<lfloor>F\<rfloor> div 2"
    by (rule floor_divide_real_eq_div) simp
  then show "\<lfloor>F\<rfloor> div 2 = \<lfloor>F / 2\<rfloor>" by simp
qed

lemma save_frames_all_ok:
  assumes "\<forall>k\<in>set ks. py_format ptrn (int k) = Inr (name k) \<and> renders a (2 * int k)
             \<and> writable env (name k)"
  shows "save_frames env a ptrn 2 (map (\<lambda>k. 2 * int k) ks) w =
           (Returns (), w\<lparr>files := files w \<union> name ` set ks,
                           trace := trace w @ map (\<lambda>k. SaveFrame (name k) (2 * int k)
                                                       RENDER_WIDTH RENDER_HEIGHT) ks\<rparr>)"
  using assms
proof (induction ks arbitrary: w)
  case Nil
  then show ?case by simp
next
  case (Cons k ks)
  let ?w1 = "w\<lparr>files := insert (name k) (files w),
               trace := trace w @ [SaveFrame (name k) (2 * int k) RENDER_WIDTH RENDER_HEIGHT]\<rparr>"
  have one: "save_frame env a (name k) (2 * int k) RENDER_WIDTH RENDER_HEIGHT w = (Returns (), ?w1)"
    using Cons.prems by (simp add: save_frame_def Let_def log_event_def)
  have fmt: "py_format ptrn (int k) = Inr (name k)"
    using Cons.prems by simp
  have rest: "save_frames env a ptrn 2 (map (\<lambda>k. 2 * int k) ks) ?w1 =
           (Returns (), ?w1\<lparr>files := files ?w1 \<union> name ` set ks,
                           trace := trace ?w1 @ map (\<lambda>k. SaveFrame (name k) (2 * int k)
                                                       RENDER_WIDTH RENDER_HEIGHT) ks\<rparr>)"
    using Cons.prems by (intro Cons.IH) simp
  show ?case
    by (simp add: fmt one rest)
qed

lemma render_tgs_success:
  assumes "rlottie_python env" and "from_tgs env tgs = Inr a"
    and "total_frames a = int N" and "framerate a = Finite F" and "0 \<le> F \<or> F \<in> \<int>"
    and "N = 0 \<or> (CHR ''%'' \<notin> set dir
           \<and> (\<forall>k < nat \<lceil>real N / 2\<rceil>. renders a (2 * int k)
                                      \<and> writable env (frame_file dir k)))"
  shows "render_tgs env w tgs dir =
     (Returns (Some (os_path_join dir ''frame_%04d.png''), \<lfloor>F / 2\<rfloor>),
      w\<lparr>files := files w \<union> frame_file dir ` {..<nat \<lceil>real N / 2\<rceil>},
        trace := trace w @ FromTgs tgs #
                 map (\<lambda>k. SaveFrame (frame_file dir k) (2 * int k) 512 512)
                     [0..<nat \<lceil>real N / 2\<rceil>]\<rparr>)"
proof -
  let ?ptrn = "os_path_join dir ''frame_%04d.png''"
  let ?n = "nat \<lceil>real N / 2\<rceil>"
  let ?w1 = "log_event (FromTgs tgs) w"
  have all: "\<forall>k\<in>set [0..<?n]. py_format ?ptrn (int k) = Inr (frame_file dir k)
               \<and> renders a (2 * int k) \<and> writable env (frame_file dir k)"
  proof (cases "N = 0")
    case True
    then show ?thesis by simp
  next
    case False
    with assms(6) have "CHR ''%'' \<notin> set dir"
      and "\<forall>k < ?n. renders a (2 * int k) \<and> writable env (frame_file dir k)"
      by auto
    then show ?thesis by (simp add: py_format_pattern)
  qed
  have loop: "save_frames env a ?ptrn 2 (py_range 0 (total_frames a) 2) ?w1 =
           (Returns (), ?w1\<lparr>files := files ?w1 \<union> frame_file dir ` set [0..<?n],
                           trace := trace ?w1 @ map (\<lambda>k. SaveFrame (frame_file dir k) (2 * int k)
                                                       RENDER_WIDTH RENDER_HEIGHT) [0..<?n]\<rparr>)"
    unfolding assms(3) py_range_frames using all by (rule save_frames_all_ok)
  have "render_tgs_try env w tgs dir =
     (Returns (Some ?ptrn, \<lfloor>F\<rfloor> div 2),
      ?w1\<lparr>files := files ?w1 \<union> frame_file dir ` set [0..<?n],
          trace := trace ?w1 @ map (\<lambda>k. SaveFrame (frame_file dir k) (2 * int k)
                                      RENDER_WIDTH RENDER_HEIGHT) [0..<?n]\<rparr>)"
    by (simp add: render_tgs_try_def assms(2) assms(4) py_int_half(1) [OF assms(5)] loop
        del: set_upt)
  then show ?thesis
    using assms(1)
    by (simp add: render_tgs_def py_int_half(2) [OF assms(5)] log_event_def
        RENDER_WIDTH_def RENDER_HEIGHT_def atLeast0LessThan)
qed

text \<open>
  Claim C1. Let the binding be present and the container load with \<open>N\<close> frames and a
  finite frame rate \<open>F\<close> that is not negative (or is a whole number). If \<open>N = 0\<close>, or if
  the output directory holds no \<^verbatim>\<open>%\<close> and each of the frames can be drawn and written,
  then \<^verbatim>\<open>render_tgs\<close> loads the container and saves exactly \<open>\<lceil>N / 2\<rceil>\<close> frames, the source
  frames 0, 2, 4, ... under the numbers 0, 1, 2, ... of the four-digit zero-filled
  pattern, each at 512 x 512, and returns the pattern with the frame rate \<open>\<lfloor>F / 2\<rfloor>\<close>.
  For \<open>N = 0\<close> nothing is saved and the pattern is returned all the same.
\<close>

theorem render_tgs_frames:
  assumes "rlottie_python env" and "from_tgs env tgs = Inr a"
    and "total_frames a = int N" and "framerate a = Finite F" and "0 \<le> F \<or> F \<in> \<int>"
    and "N = 0 \<or> (CHR ''%'' \<notin> set dir
           \<and> (\<forall>k < nat \<lceil>real N / 2\<rceil>. renders a (2 * int k)
                                      \<and> writable env (frame_file dir k)))"
  shows "render_tgs env w tgs dir =
     (Returns (Some (os_path_join dir ''frame_%04d.png''), \<lfloor>F / 2\<rfloor>),
      w\<lparr>files := files w \<union> frame_file dir ` {..<nat \<lceil>real N / 2\<rceil>},
        trace := trace w @ FromTgs tgs #
                 map (\<lambda>k. SaveFrame (frame_file dir k) (2 * int k) 512 512)
                     [0..<nat \<lceil>real N / 2\<rceil>]\<rparr>)"
  using assms by (rule render_tgs_success)

theorem render_tgs_frames_witness:
  "render_tgs demo_env demo_world ''in.tgs'' ''/tmp/tmpq'' =
     (Returns (Some ''/tmp/tmpq/frame_%04d.png'', 30),
      \<lparr>files = {''in.tgs'', ''in.webm'', ''/tmp/tmpq/frame_0000.png'',
                ''/tmp/tmpq/frame_0001.png''},
       trace = [FromTgs ''in.tgs'',
                SaveFrame ''/tmp/tmpq/frame_0000.png'' 0 512 512,
                SaveFrame ''/tmp/tmpq/frame_0001.png'' 2 512 512]\<rparr>)
   \<and> render_tgs empty_env demo_world ''in.tgs'' ''/tmp/a%b'' =
     (Returns (Some ''/tmp/a%b/frame_%04d.png'', 30),
      \<lparr>files = {''in.tgs'', ''in.webm''}, trace = [FromTgs ''in.tgs'']\<rparr>)"
proof -
  have n: "nat \<lceil>real 3 / 2\<rceil> = 2" by simp
  have f0: "frame_file ''/tmp/tmpq'' 0 = ''/tmp/tmpq/frame_0000.png''" by code_simp
  have f1: "frame_file ''/tmp/tmpq'' (Suc 0) = ''/tmp/tmpq/frame_0001.png''" by code_simp
  have p1: "os_path_join ''/tmp/tmpq'' ''frame_%04d.png'' = ''/tmp/tmpq/frame_%04d.png''"
    and p2: "os_path_join ''/tmp/a%b'' ''frame_%04d.png'' = ''/tmp/a%b/frame_%04d.png''"
    by (simp_all add: os_path_join_def)
  have a: "rlottie_python demo_env" "from_tgs demo_env ''in.tgs'' = Inr demo_anim"
    "total_frames demo_anim = int 3" "framerate demo_anim = Finite 60"
    "(0::real) \<le> 60 \<or> (60::real) \<in> \<int>"
    by (simp_all add: demo_env_def demo_anim_def)
  have a6: "(3::nat) = 0 \<or> (CHR ''%'' \<notin> set ''/tmp/tmpq''
           \<and> (\<forall>k < nat \<lceil>real 3 / 2\<rceil>. renders demo_anim (2 * int k)
                      \<and> writable demo_env (frame_file ''/tmp/tmpq'' k)))"
    unfolding n by (auto simp: demo_env_def demo_anim_def)
  have b: "rlottie_python empty_env" "from_tgs empty_env ''in.tgs'' = Inr empty_anim"
    "total_frames empty_anim = int 0" "framerate empty_anim = Finite 60"
    by (simp_all add: empty_env_def empty_anim_def demo_env_def demo_anim_def)
  have b6: "(0::nat) = 0 \<or> (CHR ''%'' \<notin> set ''/tmp/a%b''
           \<and> (\<forall>k < nat \<lceil>real 0 / 2\<rceil>. renders empty_anim (2 * int k)
                      \<and> writable empty_env (frame_file ''/tmp/a%b'' k)))"
    by simp
  have two: "{..<2::nat} = {0, Suc 0}" "[0..<2] = [0, Suc 0]"
    by (auto simp: numeral_2_eq_2)
  from render_tgs_frames [OF a a6, of demo_world]
  have "render_tgs demo_env demo_world ''in.tgs'' ''/tmp/tmpq'' =
     (Returns (Some ''/tmp/tmpq/frame_%04d.png'', 30),
      \<lparr>files = {''in.tgs'', ''in.webm'', ''/tmp/tmpq/frame_0000.png'',
                ''/tmp/tmpq/frame_0001.png''},
       trace = [FromTgs ''in.tgs'',
                SaveFrame ''/tmp/tmpq/frame_0000.png'' 0 512 512,
                SaveFrame ''/tmp/tmpq/frame_0001.png'' 2 512 512]\<rparr>)"
    unfolding n p1 two by (simp add: f0 f1 demo_world_def insert_commute)
  moreover from render_tgs_frames [OF b a(5) b6, of demo_world]
  have "render_tgs empty_env demo_world ''in.tgs'' ''/tmp/a%b'' =
     (Returns (Some ''/tmp/a%b/frame_%04d.png'', 30),
      \<lparr>files = {''in.tgs'', ''in.webm''}, trace = [FromTgs ''in.tgs'']\<rparr>)"
    unfolding p2 by (simp add: demo_world_def)
  ultimately show ?thesis by simp
qed

subsection \<open>Both methods are the pipeline\<close>

lemma py_str_target_fps: "py_str TARGET_FPS = ''30''"
  unfolding TARGET_FPS_def by code_simp

lemma to_gif_try_prepare:
  "to_gif_try env w b in_path out_path is_tgs =
     (case prepare_input env w in_path is_tgs of
        (Raises e, td, w1) \<Rightarrow> (Raises e, td, w1)
      | (Hangs, td, w1) \<Rightarrow> (Hangs, td, w1)
      | (Returns None, td, w1) \<Rightarrow> (Returns False, td, w1)
      | (Returns (Some input), td, w1) \<Rightarrow>
          (case run_ffmpeg env w1 (gif_command out_path b input) of (r, w2) \<Rightarrow> (r, td, w2)))"
  by (simp add: to_gif_try_def prepare_input_def gif_command_def py_str_target_fps truthy_def
      split: prod.splits outcome.splits option.splits)

lemma to_mp4_try_prepare:
  "to_mp4_try env w b in_path out_path is_tgs =
     (case prepare_input env w in_path is_tgs of
        (Raises e, td, w1) \<Rightarrow> (Raises e, td, w1)
      | (Hangs, td, w1) \<Rightarrow> (Hangs, td, w1)
      | (Returns None, td, w1) \<Rightarrow> (Returns False, td, w1)
      | (Returns (Some input), td, w1) \<Rightarrow>
          (case run_ffmpeg env w1 (mp4_command out_path b input) of (r, w2) \<Rightarrow> (r, td, w2)))"
  by (simp add: to_mp4_try_def prepare_input_def mp4_command_def FFMPEG_CRF_def FFMPEG_PRESET_def
      truthy_def split: prod.splits outcome.splits option.splits)

lemma to_gif_convert:
  "to_gif env w in_path out_path is_tgs = convert env w (gif_command out_path) in_path is_tgs"
  by (simp add: to_gif_def convert_def to_gif_try_prepare truthy_def
      split: prod.splits outcome.splits option.splits)

lemma to_mp4_convert:
  "to_mp4 env w in_path out_path is_tgs = convert env w (mp4_command out_path) in_path is_tgs"
  by (simp add: to_mp4_def convert_def to_mp4_try_prepare truthy_def
      split: prod.splits outcome.splits option.splits)

subsection \<open>What each step adds to the trace\<close>

lemma appended_refl: "appended P w w"
  by (simp add: appended_def)

lemma appended_trans: "appended P w w' \<Longrightarrow> appended P w' w'' \<Longrightarrow> appended P w w''"
  by (auto simp: appended_def)

lemma appended_mono: "appended P w w' \<Longrightarrow> (\<And>e. P e \<Longrightarrow> Q e) \<Longrightarrow> appended Q w w'"
  by (auto simp: appended_def list_all_iff)

lemma appended_log: "P e \<Longrightarrow> appended P w (log_event e w)"
  by (simp add: appended_def log_event_def)

lemma appended_files_right [simp]: "appended P w (w'\<lparr>files := fs\<rparr>) = appended P w w'"
  by (simp add: appended_def)

lemma appended_files_left [simp]: "appended P (w\<lparr>files := fs\<rparr>) w' = appended P w w'"
  by (simp add: appended_def)

lemma spawned_append: "spawned (xs @ ys) = spawned xs @ spawned ys"
  by (induction xs rule: spawned.induct) simp_all

lemma spawned_none: "list_all (\<lambda>e. \<not> is_spawn e) evs \<Longrightarrow> spawned evs = []"
  by (induction evs rule: spawned.induct) simp_all

lemma appended_spawned:
  "appended P w w' \<Longrightarrow> (\<And>e. P e \<Longrightarrow> \<not> is_spawn e) \<Longrightarrow> spawned (trace w') = spawned (trace w)"
  by (auto simp: appended_def spawned_append list_all_iff intro!: spawned_none)

lemma get_ffmpeg_path_appended: "appended is_query w (snd (get_ffmpeg_path env w))"
  by (auto simp: get_ffmpeg_path_def Let_def appended_def log_event_def
      split: option.splits sum.splits list.splits)

lemma mk_temp_cases:
  "mk_temp env w =
     (case mkdtemp env (files w) of
        Inl e \<Rightarrow> (Raises e, w\<lparr>trace := trace w @ [Mkdtemp]\<rparr>)
      | Inr d \<Rightarrow> (Returns d, w\<lparr>files := insert d (files w), trace := trace w @ [Mkdtemp]\<rparr>))"
  by (simp add: mk_temp_def log_event_def split: sum.splits)

lemma mk_temp_appended: "appended is_prepare w (snd (mk_temp env w))"
  by (simp add: mk_temp_cases appended_def split: sum.splits)

lemma save_frames_appended: "appended is_prepare w (snd (save_frames env a ptrn s idxs w))"
proof (induction idxs arbitrary: w)
  case Nil
  show ?case by (simp add: appended_refl)
next
  case (Cons i idxs)
  show ?case
  proof (cases "py_format ptrn (i div s)")
    case (Inl e)
    then show ?thesis by (simp add: appended_refl)
  next
    case (Inr name)
    let ?w1 = "w\<lparr>files := insert name (files w),
                 trace := trace w @ [SaveFrame name i RENDER_WIDTH RENDER_HEIGHT]\<rparr>"
    have one: "appended is_prepare w ?w1"
      by (simp add: appended_def)
    have "appended is_prepare ?w1 (snd (save_frames env a ptrn s idxs ?w1))"
      by (rule Cons.IH)
    with one have "appended is_prepare w (snd (save_frames env a ptrn s idxs ?w1))"
      by (rule appended_trans)
    then show ?thesis
      using Inr by (simp add: save_frame_cases appended_log)
  qed
qed

lemma save_frames_appended_from:
  assumes "appended is_prepare w w1" and "save_frames env a ptrn s idxs w1 = (r, w2)"
  shows "appended is_prepare w w2"
proof -
  have "appended is_prepare w1 (snd (save_frames env a ptrn s idxs w1))"
    by (rule save_frames_appended)
  with assms show ?thesis by (auto intro: appended_trans)
qed

lemma render_tgs_try_appended: "appended is_prepare w (snd (render_tgs_try env w p d))"
proof -
  have first: "appended is_prepare w (log_event (FromTgs p) w)"
    by (simp add: appended_log)
  show ?thesis
    by (auto simp: render_tgs_try_def Let_def first
        split: sum.splits prod.splits outcome.splits
        intro: save_frames_appended_from [OF first])
qed

lemma render_tgs_appended: "appended is_prepare w (snd (render_tgs env w p d))"
proof (cases "render_tgs_try env w p d")
  case (Pair r w')
  with render_tgs_try_appended [of w env p d] have "appended is_prepare w w'" by simp
  with Pair show ?thesis
    by (cases r) (simp_all add: render_tgs_def appended_refl)
qed

lemma render_tgs_appended_from:
  assumes "appended is_prepare w w1" and "render_tgs env w1 p d = (r, w2)"
  shows "appended is_prepare w w2"
proof -
  have "appended is_prepare w1 (snd (render_tgs env w1 p d))"
    by (rule render_tgs_appended)
  with assms show ?thesis by (auto intro: appended_trans)
qed

lemma prepare_input_appended:
  "appended is_prepare w (snd (snd (prepare_input env w in_path is_tgs)))"
proof (cases is_tgs)
  case False
  then show ?thesis by (simp add: prepare_input_def appended_refl)
next
  case True
  show ?thesis
  proof (cases "mkdtemp env (files w)")
    case (Inl e)
    then show ?thesis
      using True mk_temp_appended [of w env] by (simp add: prepare_input_def mk_temp_cases)
  next
    case (Inr d)
    let ?w1 = "w\<lparr>files := insert d (files w), trace := trace w @ [Mkdtemp]\<rparr>"
    have one: "appended is_prepare w ?w1" by (simp add: appended_def)
    show ?thesis
      using True Inr
      by (auto simp: prepare_input_def mk_temp_cases
          split: prod.splits outcome.splits option.splits
          intro: render_tgs_appended_from [OF one])
  qed
qed

lemma cleanup_appended: "appended is_cleanup w (cleanup env td w)"
  by (auto simp: cleanup_def Let_def appended_def log_event_def split: option.splits)

lemma run_ffmpeg_trace: "trace (snd (run_ffmpeg env w cmd)) = trace w @ [Spawn cmd]"
  by (simp add: run_ffmpeg_cases log_event_def split: proc_result.splits)

subsection \<open>The orchestrator without an encoder, and on plain video\<close>

lemma convert_no_encoder:
  "fst (get_ffmpeg_path env w) = Returns None \<Longrightarrow>
   convert env w command in_path is_tgs = (Returns False, snd (get_ffmpeg_path env w))"
  by (cases "get_ffmpeg_path env w") (simp add: convert_def)

text \<open>
  Claim C8. When the locator finds no encoder, \<^verbatim>\<open>to_gif\<close> and \<^verbatim>\<open>to_mp4\<close> return false
  and the only calls made are the queries of the locator: no temporary directory is
  created, the rasterizer is not called, no encoder process is started, and the set of
  files is what it was, so no output file exists that did not exist before.
\<close>

theorem no_encoder_returns_false:
  assumes "fst (get_ffmpeg_path env w) = Returns None"
  shows "fst (to_gif env w in_path out_path is_tgs) = Returns False
         \<and> files (snd (to_gif env w in_path out_path is_tgs)) = files w
         \<and> appended is_query w (snd (to_gif env w in_path out_path is_tgs))
         \<and> fst (to_mp4 env w in_path out_path is_tgs) = Returns False
         \<and> files (snd (to_mp4 env w in_path out_path is_tgs)) = files w
         \<and> appended is_query w (snd (to_mp4 env w in_path out_path is_tgs))"
  by (simp add: to_gif_convert to_mp4_convert convert_no_encoder [OF assms]
      get_ffmpeg_path_files get_ffmpeg_path_appended)

theorem no_encoder_returns_false_witness:
  "fst (to_gif noenc_env demo_world ''in.tgs'' ''out.gif'' True) = Returns False
   \<and> files (snd (to_gif noenc_env demo_world ''in.tgs'' ''out.gif'' True)) = files demo_world
   \<and> appended is_query demo_world (snd (to_gif noenc_env demo_world ''in.tgs'' ''out.gif'' True))
   \<and> fst (to_mp4 noenc_env demo_world ''in.tgs'' ''out.gif'' True) = Returns False
   \<and> files (snd (to_mp4 noenc_env demo_world ''in.tgs'' ''out.gif'' True)) = files demo_world
   \<and> appended is_query demo_world (snd (to_mp4 noenc_env demo_world ''in.tgs'' ''out.gif'' True))"
proof -
  have "fst (get_ffmpeg_path noenc_env demo_world) = Returns None"
    by (simp add: get_ffmpeg_path_def noenc_env_def demo_env_def truthy_def)
  then show ?thesis by (rule no_encoder_returns_false)
qed

lemma convert_plain:
  "convert env w command in_path False =
     (case get_ffmpeg_path env w of
        (Raises e, w1) \<Rightarrow> (Raises e, w1)
      | (Hangs, w1) \<Rightarrow> (Hangs, w1)
      | (Returns None, w1) \<Rightarrow> (Returns False, w1)
      | (Returns (Some bin), w1) \<Rightarrow>
          if bin = [] then (Returns False, w1)
          else run_ffmpeg env w1 (command bin [''-i'', in_path]))"
  by (simp add: convert_def prepare_input_def cleanup_def
      split: prod.splits outcome.splits option.splits)

lemma convert_plain_effects:
  assumes "\<And>bin input. last (command bin input) = out_path"
  shows "appended (encoder_only out_path) w (snd (convert env w command in_path False))"
    and "files (snd (convert env w command in_path False)) = files w
         \<or> (\<exists>cmd rc err. last cmd = out_path
               \<and> spawn env cmd (files w) = Exits rc err (files (snd (convert env w command in_path False))))"
proof -
  obtain r w1 where g: "get_ffmpeg_path env w = (r, w1)" by (cases "get_ffmpeg_path env w")
  from get_ffmpeg_path_appended [of w env] g have "appended is_query w w1" by simp
  then have q: "appended (encoder_only out_path) w w1"
    by (rule appended_mono) (simp add: encoder_only_def)
  from get_ffmpeg_path_files [of env w] g have f: "files w1 = files w" by simp
  have sp: "appended (encoder_only out_path) w (snd (run_ffmpeg env w1 (command bin input)))"
    for bin input
  proof -
    have "appended (encoder_only out_path) w1 (snd (run_ffmpeg env w1 (command bin input)))"
      by (simp add: appended_def run_ffmpeg_trace encoder_only_def assms)
    with q show ?thesis by (rule appended_trans)
  qed
  show "appended (encoder_only out_path) w (snd (convert env w command in_path False))"
    using g q sp by (simp add: convert_plain split: outcome.splits option.splits)
  have fs: "files (snd (run_ffmpeg env w1 (command bin input))) = files w
         \<or> (\<exists>cmd rc err. last cmd = out_path
               \<and> spawn env cmd (files w) = Exits rc err (files (snd (run_ffmpeg env w1 (command bin input)))))"
    for bin input
  proof (cases "spawn env (command bin input) (files w)")
    case (Exits rc err fs')
    then have "files (snd (run_ffmpeg env w1 (command bin input))) = fs'"
      by (simp add: run_ffmpeg_cases f)
    with Exits assms show ?thesis by auto
  qed (simp_all add: run_ffmpeg_cases f log_event_def)
  show "files (snd (convert env w command in_path False)) = files w
         \<or> (\<exists>cmd rc err. last cmd = out_path
               \<and> spawn env cmd (files w) = Exits rc err (files (snd (convert env w command in_path False))))"
    using g f fs by (simp add: convert_plain split: outcome.splits option.splits)
qed

lemma last_gif_command: "last (gif_command out_path bin input) = out_path"
  by (simp add: gif_command_def)

lemma last_mp4_command: "last (mp4_command out_path bin input) = out_path"
  by (simp add: mp4_command_def)

text \<open>
  Claim C10. With \<^verbatim>\<open>is_tgs\<close> false, the calls of \<^verbatim>\<open>to_gif\<close> and \<^verbatim>\<open>to_mp4\<close> are the queries of
  the locator and at most encoder processes whose last argument is the output path: no
  temporary directory is created, the rasterizer is not called, and the clean-up step
  does nothing, not even its existence check. The files are those of the start, or those
  that such an encoder process left.
\<close>

theorem plain_input_no_temp_dir:
  "appended (encoder_only out_path) w (snd (to_gif env w in_path out_path False))
   \<and> (files (snd (to_gif env w in_path out_path False)) = files w
       \<or> (\<exists>cmd rc err. last cmd = out_path
             \<and> spawn env cmd (files w) = Exits rc err (files (snd (to_gif env w in_path out_path False)))))
   \<and> appended (encoder_only out_path) w (snd (to_mp4 env w in_path out_path False))
   \<and> (files (snd (to_mp4 env w in_path out_path False)) = files w
       \<or> (\<exists>cmd rc err. last cmd = out_path
             \<and> spawn env cmd (files w) = Exits rc err (files (snd (to_mp4 env w in_path out_path False)))))"
  unfolding to_gif_convert to_mp4_convert
  using convert_plain_effects [where command = "gif_command out_path" and out_path = out_path
      and w = w and env = env and in_path = in_path, OF last_gif_command]
    convert_plain_effects [where command = "mp4_command out_path" and out_path = out_path
      and w = w and env = env and in_path = in_path, OF last_mp4_command]
  by blast

subsection \<open>The command line of the encoder\<close>

lemma prepare_input_ready:
  assumes "prepare_input env w in_path is_tgs = (Returns (Some input), td, w2)"
  shows "if is_tgs
         then \<exists>d w1 ptrn fps. mk_temp env w = (Returns d, w1)
                \<and> fst (render_tgs env w1 in_path d) = Returns (Some ptrn, fps)
                \<and> input = [''-framerate'', py_str fps, ''-i'', ptrn]
         else input = [''-i'', in_path]"
  using assms
  by (auto simp: prepare_input_def split: prod.splits outcome.splits option.splits if_splits)

lemma cleanup_spawned: "spawned (trace (cleanup env td w)) = spawned (trace w)"
proof -
  have "appended is_cleanup w (cleanup env td w)" by (rule cleanup_appended)
  then show ?thesis
  proof (rule appended_spawned)
    fix e show "is_cleanup e \<Longrightarrow> \<not> is_spawn e" by (cases e) simp_all
  qed
qed

lemma get_ffmpeg_path_spawned:
  "spawned (trace (snd (get_ffmpeg_path env w))) = spawned (trace w)"
proof -
  have "appended is_query w (snd (get_ffmpeg_path env w))" by (rule get_ffmpeg_path_appended)
  then show ?thesis
  proof (rule appended_spawned)
    fix e show "is_query e \<Longrightarrow> \<not> is_spawn e" by (cases e) simp_all
  qed
qed

lemma prepare_input_spawned:
  "spawned (trace (snd (snd (prepare_input env w in_path is_tgs)))) = spawned (trace w)"
proof -
  have "appended is_prepare w (snd (snd (prepare_input env w in_path is_tgs)))"
    by (rule prepare_input_appended)
  then show ?thesis
  proof (rule appended_spawned)
    fix e show "is_prepare e \<Longrightarrow> \<not> is_spawn e" by (cases e) simp_all
  qed
qed

lemma run_ffmpeg_spawned:
  "spawned (trace (snd (run_ffmpeg env w cmd))) = spawned (trace w) @ [cmd]"
  by (simp add: run_ffmpeg_trace spawned_append)

lemma convert_spawned:
  "\<exists>cmds. spawned (trace (snd (convert env w command in_path is_tgs))) = spawned (trace w) @ cmds
     \<and> (\<forall>cmd\<in>set cmds. \<exists>bin input.
           fst (get_ffmpeg_path env w) = Returns (Some bin) \<and> cmd = command bin input
           \<and> (if is_tgs
               then \<exists>d w1 ptrn fps.
                      mk_temp env (snd (get_ffmpeg_path env w)) = (Returns d, w1)
                      \<and> fst (render_tgs env w1 in_path d) = Returns (Some ptrn, fps)
                      \<and> input = [''-framerate'', py_str fps, ''-i'', ptrn]
               else input = [''-i'', in_path]))"
proof -
  obtain r w1 where g: "get_ffmpeg_path env w = (r, w1)" by (cases "get_ffmpeg_path env w")
  from get_ffmpeg_path_spawned [of env w] g
  have q: "spawned (trace w1) = spawned (trace w)" by simp
  obtain pr td w2 where p: "prepare_input env w1 in_path is_tgs = (pr, td, w2)"
    by (cases "prepare_input env w1 in_path is_tgs") auto
  from prepare_input_spawned [of env w1 in_path is_tgs] p q
  have q2: "spawned (trace w2) = spawned (trace w)" by simp
  show ?thesis
  proof (cases "\<exists>bin input. r = Returns (Some bin) \<and> bin \<noteq> [] \<and> pr = Returns (Some input)")
    case True
    then obtain bin input where r: "r = Returns (Some bin)" "bin \<noteq> []"
      and pr: "pr = Returns (Some input)" by blast
    obtain r3 w3 where f: "run_ffmpeg env w2 (command bin input) = (r3, w3)"
      by (cases "run_ffmpeg env w2 (command bin input)")
    from run_ffmpeg_spawned [of env w2 "command bin input"] f q2
    have q3: "spawned (trace w3) = spawned (trace w) @ [command bin input]" by simp
    have "spawned (trace (snd (convert env w command in_path is_tgs)))
            = spawned (trace w) @ [command bin input]"
      using g r p pr f q3
      by (cases r3) (simp_all add: convert_def cleanup_spawned)
    moreover have "if is_tgs
               then \<exists>d w1' ptrn fps.
                      mk_temp env (snd (get_ffmpeg_path env w)) = (Returns d, w1')
                      \<and> fst (render_tgs env w1' in_path d) = Returns (Some ptrn, fps)
                      \<and> input = [''-framerate'', py_str fps, ''-i'', ptrn]
               else input = [''-i'', in_path]"
      using prepare_input_ready [of env w1 in_path is_tgs input td w2] p pr g
      by (auto split: if_splits)
    ultimately show ?thesis
      using g r by (intro exI [of _ "[command bin input]"]) auto
  next
    case False
    have "spawned (trace (snd (convert env w command in_path is_tgs))) = spawned (trace w)"
    proof (cases r)
      case (Returns b)
      show ?thesis
      proof (cases b)
        case None
        with Returns g q show ?thesis by (simp add: convert_def)
      next
        case (Some bin)
        show ?thesis
        proof (cases "bin = []")
          case True
          with Some Returns g q show ?thesis by (simp add: convert_def)
        next
          case nonempty: False
          with False Returns Some have "\<nexists>input. pr = Returns (Some input)" by simp
          with Returns Some nonempty g p q2 show ?thesis
            by (cases pr) (auto simp: convert_def cleanup_spawned split: option.splits)
        qed
      qed
    qed (use g q in \<open>simp_all add: convert_def\<close>)
    then show ?thesis by (intro exI [of _ "[]"]) simp
  qed
qed

lemma get_ffmpeg_path_on_path:
  "truthy (which env ''ffmpeg'') \<Longrightarrow>
   get_ffmpeg_path env w = (Returns (Some ''ffmpeg''), log_event (Which ''ffmpeg'') w)"
  by (simp add: get_ffmpeg_path_def)

lemma py_str_30: "py_str 30 = ''30''"
  by code_simp

text \<open>
  Claim C3. Every encoder process that \<^verbatim>\<open>to_mp4\<close> starts has the command line: the binary
  of the locator, \<^verbatim>\<open>-y\<close>, the input, \<^verbatim>\<open>-c:v libx264 -pix_fmt yuv420p -crf 18 -preset slow\<close>,
  \<^verbatim>\<open>-vf\<close> with the filter text
  \<^verbatim>\<open>scale=512:512:force_original_aspect_ratio=decrease,pad=912:512:(ow-iw)/2:(oh-ih)/2:black\<close>,
  and the output path. The input is \<^verbatim>\<open>-framerate fps -i pattern\<close>, with the frame rate and
  the pattern the rasterizer returned, when \<^verbatim>\<open>is_tgs\<close> is true, and \<^verbatim>\<open>-i in_path\<close>
  otherwise. What the encoder does with the filter text is not part of this program.
\<close>

theorem to_mp4_command_line:
  "\<exists>cmds. spawned (trace (snd (to_mp4 env w in_path out_path is_tgs))) = spawned (trace w) @ cmds
     \<and> (\<forall>cmd\<in>set cmds. \<exists>bin input.
           fst (get_ffmpeg_path env w) = Returns (Some bin)
           \<and> cmd = [bin, ''-y''] @ input @
                   [''-c:v'', ''libx264'', ''-pix_fmt'', ''yuv420p'', ''-crf'', ''18'',
                    ''-preset'', ''slow'', ''-vf'',
                    ''scale=512:512:force_original_aspect_ratio=decrease,pad=912:512:(ow-iw)/2:(oh-ih)/2:black'',
                    out_path]
           \<and> (if is_tgs
               then \<exists>d w1 ptrn fps.
                      mk_temp env (snd (get_ffmpeg_path env w)) = (Returns d, w1)
                      \<and> fst (render_tgs env w1 in_path d) = Returns (Some ptrn, fps)
                      \<and> input = [''-framerate'', py_str fps, ''-i'', ptrn]
               else input = [''-i'', in_path]))"
  using convert_spawned [of env w "mp4_command out_path" in_path is_tgs]
  by (simp add: to_mp4_convert mp4_command_def)

theorem to_mp4_command_line_witness:
  "spawned (trace (snd (to_mp4 demo_env demo_world ''in.webm'' ''out.mp4'' False))) =
     [[''ffmpeg'', ''-y'', ''-i'', ''in.webm'',
       ''-c:v'', ''libx264'', ''-pix_fmt'', ''yuv420p'', ''-crf'', ''18'',
       ''-preset'', ''slow'', ''-vf'',
       ''scale=512:512:force_original_aspect_ratio=decrease,pad=912:512:(ow-iw)/2:(oh-ih)/2:black'',
       ''out.mp4'']]"
proof -
  have t: "truthy (which demo_env ''ffmpeg'')"
    by (simp add: demo_env_def truthy_def)
  have g: "fst (get_ffmpeg_path demo_env demo_world) = Returns (Some ''ffmpeg'')"
    by (simp add: get_ffmpeg_path_on_path [OF t])
  have one: "length (spawned (trace (snd (to_mp4 demo_env demo_world ''in.webm'' ''out.mp4'' False)))) = 1"
    by (simp add: to_mp4_convert convert_plain get_ffmpeg_path_on_path [OF t] run_ffmpeg_spawned
        log_event_def demo_world_def)
  from to_mp4_command_line [of demo_env demo_world "''in.webm''" "''out.mp4''" False]
  obtain cmds where c: "spawned (trace (snd (to_mp4 demo_env demo_world ''in.webm'' ''out.mp4'' False)))
        = spawned (trace demo_world) @ cmds"
    and a: "\<forall>cmd\<in>set cmds. \<exists>bin input.
           fst (get_ffmpeg_path demo_env demo_world) = Returns (Some bin)
           \<and> cmd = [bin, ''-y''] @ input @
                   [''-c:v'', ''libx264'', ''-pix_fmt'', ''yuv420p'', ''-crf'', ''18'',
                    ''-preset'', ''slow'', ''-vf'',
                    ''scale=512:512:force_original_aspect_ratio=decrease,pad=912:512:(ow-iw)/2:(oh-ih)/2:black'',
                    ''out.mp4'']
           \<and> input = [''-i'', ''in.webm'']"
    by auto
  from c one obtain cmd where "cmds = [cmd]"
    by (cases cmds) (simp_all add: demo_world_def)
  with a g c show ?thesis by (auto simp: demo_world_def)
qed

lemma scenario_render:
  "fst (render_tgs scenario_env w ''in.tgs'' ''/tmp/tmpq'')
     = Returns (Some ''/tmp/tmpq/frame_%04d.png'', 30)"
proof -
  have n: "nat \<lceil>real 64 / 2\<rceil> = 32" by simp
  have "rlottie_python scenario_env" "from_tgs scenario_env ''in.tgs'' = Inr scenario_anim"
    "total_frames scenario_anim = int 64" "framerate scenario_anim = Finite 60"
    "(0::real) \<le> 60 \<or> (60::real) \<in> \<int>"
    by (simp_all add: scenario_env_def scenario_anim_def demo_env_def)
  moreover have "(64::nat) = 0 \<or> (CHR ''%'' \<notin> set ''/tmp/tmpq''
           \<and> (\<forall>k < nat \<lceil>real 64 / 2\<rceil>. renders scenario_anim (2 * int k)
                      \<and> writable scenario_env (frame_file ''/tmp/tmpq'' k)))"
    unfolding n by (auto simp: scenario_env_def scenario_anim_def demo_env_def)
  ultimately have "render_tgs scenario_env w ''in.tgs'' ''/tmp/tmpq'' =
     (Returns (Some (os_path_join ''/tmp/tmpq'' ''frame_%04d.png''), \<lfloor>(60::real) / 2\<rfloor>),
      w\<lparr>files := files w \<union> frame_file ''/tmp/tmpq'' ` {..<nat \<lceil>real 64 / 2\<rceil>},
        trace := trace w @ FromTgs ''in.tgs'' #
                 map (\<lambda>k. SaveFrame (frame_file ''/tmp/tmpq'' k) (2 * int k) 512 512)
                     [0..<nat \<lceil>real 64 / 2\<rceil>]\<rparr>)"
    by (rule render_tgs_success)
  then show ?thesis by (simp add: os_path_join_def)
qed

lemma scenario_prepare:
  "fst (prepare_input scenario_env w ''in.tgs'' True)
     = Returns (Some [''-framerate'', ''30'', ''-i'', ''/tmp/tmpq/frame_%04d.png''])"
proof -
  let ?w1 = "w\<lparr>files := insert ''/tmp/tmpq'' (files w), trace := trace w @ [Mkdtemp]\<rparr>"
  have m: "mk_temp scenario_env w = (Returns ''/tmp/tmpq'', ?w1)"
    by (simp add: mk_temp_cases scenario_env_def demo_env_def)
  obtain w2 where "render_tgs scenario_env ?w1 ''in.tgs'' ''/tmp/tmpq''
      = (Returns (Some ''/tmp/tmpq/frame_%04d.png'', 30), w2)"
    using scenario_render [of ?w1] by (cases "render_tgs scenario_env ?w1 ''in.tgs'' ''/tmp/tmpq''") simp
  with m show ?thesis by (simp add: prepare_input_def py_str_30)
qed

text \<open>
  Claim C4. Every encoder process that \<^verbatim>\<open>to_gif\<close> starts has the command line: the binary
  of the locator, \<^verbatim>\<open>-y\<close>, the input, \<^verbatim>\<open>-vf\<close> with the filter text
  \<^verbatim>\<open>fps=30,scale=512:512:flags=lanczos,pad=912:512:(ow-iw)/2:(oh-ih)/2:black,\<close>
  \<^verbatim>\<open>split[s0][s1];[s0]palettegen[p];[s1][p]paletteuse\<close>, then \<^verbatim>\<open>-loop 0\<close> and the output path.
  The input is as for \<^verbatim>\<open>to_mp4\<close>. What the encoder does with the filter text is not part
  of this program.
\<close>

theorem to_gif_command_line:
  "\<exists>cmds. spawned (trace (snd (to_gif env w in_path out_path is_tgs))) = spawned (trace w) @ cmds
     \<and> (\<forall>cmd\<in>set cmds. \<exists>bin input.
           fst (get_ffmpeg_path env w) = Returns (Some bin)
           \<and> cmd = [bin, ''-y''] @ input @
                   [''-vf'',
                    ''fps=30,scale=512:512:flags=lanczos,pad=912:512:(ow-iw)/2:(oh-ih)/2:black,split[s0][s1];[s0]palettegen[p];[s1][p]paletteuse'',
                    ''-loop'', ''0'', out_path]
           \<and> (if is_tgs
               then \<exists>d w1 ptrn fps.
                      mk_temp env (snd (get_ffmpeg_path env w)) = (Returns d, w1)
                      \<and> fst (render_tgs env w1 in_path d) = Returns (Some ptrn, fps)
                      \<and> input = [''-framerate'', py_str fps, ''-i'', ptrn]
               else input = [''-i'', in_path]))"
  using convert_spawned [of env w "gif_command out_path" in_path is_tgs]
  by (simp add: to_gif_convert gif_command_def)

theorem to_gif_command_line_witness:
  "spawned (trace (snd (to_gif scenario_env demo_world ''in.tgs'' ''out.gif'' True))) =
     [[''ffmpeg'', ''-y'', ''-framerate'', ''30'', ''-i'', ''/tmp/tmpq/frame_%04d.png'',
       ''-vf'',
       ''fps=30,scale=512:512:flags=lanczos,pad=912:512:(ow-iw)/2:(oh-ih)/2:black,split[s0][s1];[s0]palettegen[p];[s1][p]paletteuse'',
       ''-loop'', ''0'', ''out.gif'']]"
proof -
  let ?w1 = "log_event (Which ''ffmpeg'') demo_world"
  have t: "truthy (which scenario_env ''ffmpeg'')"
    by (simp add: scenario_env_def demo_env_def truthy_def)
  have g: "get_ffmpeg_path scenario_env demo_world = (Returns (Some ''ffmpeg''), ?w1)"
    by (rule get_ffmpeg_path_on_path [OF t])
  obtain td w2 where p: "prepare_input scenario_env ?w1 ''in.tgs'' True
      = (Returns (Some [''-framerate'', ''30'', ''-i'', ''/tmp/tmpq/frame_%04d.png'']), td, w2)"
    using scenario_prepare [of ?w1]
    by (cases "prepare_input scenario_env ?w1 ''in.tgs'' True") auto
  have m: "mk_temp scenario_env ?w1 = (Returns ''/tmp/tmpq'',
             ?w1\<lparr>files := insert ''/tmp/tmpq'' (files ?w1), trace := trace ?w1 @ [Mkdtemp]\<rparr>)"
    by (simp add: mk_temp_cases scenario_env_def demo_env_def)
  from prepare_input_spawned [of scenario_env ?w1 "''in.tgs''" True] p
  have s2: "spawned (trace w2) = []" by (simp add: log_event_def demo_world_def)
  obtain r3 w3 where f: "run_ffmpeg scenario_env w2
        (gif_command ''out.gif'' ''ffmpeg'' [''-framerate'', ''30'', ''-i'', ''/tmp/tmpq/frame_%04d.png''])
        = (r3, w3)"
    by (cases "run_ffmpeg scenario_env w2
        (gif_command ''out.gif'' ''ffmpeg'' [''-framerate'', ''30'', ''-i'', ''/tmp/tmpq/frame_%04d.png''])")
  have "spawned (trace (snd (run_ffmpeg scenario_env w2
        (gif_command ''out.gif'' ''ffmpeg'' [''-framerate'', ''30'', ''-i'', ''/tmp/tmpq/frame_%04d.png'']))))
      = spawned (trace w2) @
        [gif_command ''out.gif'' ''ffmpeg'' [''-framerate'', ''30'', ''-i'', ''/tmp/tmpq/frame_%04d.png'']]"
    by (rule run_ffmpeg_spawned)
  with f s2 have s3: "length (spawned (trace w3)) = 1" by simp
  have one: "length (spawned (trace (snd (to_gif scenario_env demo_world ''in.tgs'' ''out.gif'' True)))) = 1"
    using g p f s3 by (cases r3) (simp_all add: to_gif_convert convert_def cleanup_spawned)
  from to_gif_command_line [of scenario_env demo_world "''in.tgs''" "''out.gif''" True]
  obtain cmds where c: "spawned (trace (snd (to_gif scenario_env demo_world ''in.tgs'' ''out.gif'' True)))
        = spawned (trace demo_world) @ cmds"
    and a: "\<forall>cmd\<in>set cmds. \<exists>bin input.
           fst (get_ffmpeg_path scenario_env demo_world) = Returns (Some bin)
           \<and> cmd = [bin, ''-y''] @ input @
                   [''-vf'',
                    ''fps=30,scale=512:512:flags=lanczos,pad=912:512:(ow-iw)/2:(oh-ih)/2:black,split[s0][s1];[s0]palettegen[p];[s1][p]paletteuse'',
                    ''-loop'', ''0'', ''out.gif'']
           \<and> (\<exists>d w1 ptrn fps.
                      mk_temp scenario_env (snd (get_ffmpeg_path scenario_env demo_world)) = (Returns d, w1)
                      \<and> fst (render_tgs scenario_env w1 ''in.tgs'' d) = Returns (Some ptrn, fps)
                      \<and> input = [''-framerate'', py_str fps, ''-i'', ptrn])"
    by auto
  from c one obtain cmd where "cmds = [cmd]"
    by (cases cmds) (simp_all add: demo_world_def)
  with a g m c scenario_render show ?thesis
    by (auto simp: demo_world_def py_str_30)
qed

subsection \<open>The outcome of the orchestrator\<close>

lemma run_ffmpeg_terminates:
  "spawn env cmd (files w) \<noteq> NeverExits \<Longrightarrow> \<exists>b. fst (run_ffmpeg env w cmd) = Returns b"
  by (cases "spawn env cmd (files w)") (auto simp: run_ffmpeg_cases)

lemma prepare_input_returns:
  assumes "is_tgs \<longrightarrow> (\<exists>d. mkdtemp env (files w) = Inr d)"
  shows "\<exists>x. fst (prepare_input env w in_path is_tgs) = Returns x"
proof (cases is_tgs)
  case False
  then show ?thesis by (simp add: prepare_input_def)
next
  case True
  with assms obtain d where d: "mkdtemp env (files w) = Inr d" by blast
  let ?w1 = "w\<lparr>files := insert d (files w), trace := trace w @ [Mkdtemp]\<rparr>"
  obtain r w2 where r: "render_tgs env ?w1 in_path d = (Returns r, w2)"
    using render_tgs_returns [of env ?w1 in_path d]
    by (cases "render_tgs env ?w1 in_path d") auto
  show ?thesis
    using True d r
    by (cases r) (simp add: prepare_input_def mk_temp_cases split: option.splits)
qed


lemma convert_returns:
  assumes "\<forall>cmd fs. spawn env cmd fs \<noteq> NeverExits"
    and "is_tgs \<longrightarrow> (\<exists>d. mkdtemp env (files w) = Inr d)"
  shows "\<exists>b. fst (convert env w command in_path is_tgs) = Returns b"
proof -
  obtain r w1 where g: "get_ffmpeg_path env w = (Returns r, w1)"
    using get_ffmpeg_path_returns [of env w] by (cases "get_ffmpeg_path env w") auto
  from get_ffmpeg_path_files [of env w] g have f: "files w1 = files w" by simp
  obtain x td w2 where p: "prepare_input env w1 in_path is_tgs = (Returns x, td, w2)"
    using prepare_input_returns [of is_tgs env w1 in_path] assms(2) f
    by (cases "prepare_input env w1 in_path is_tgs") auto
  have run: "\<exists>b w3. run_ffmpeg env w2 cmd = (Returns b, w3)" for cmd
    using run_ffmpeg_terminates [of env cmd w2] assms(1)
    by (cases "run_ffmpeg env w2 cmd") auto
  show ?thesis
  proof (cases r)
    case None
    with g show ?thesis by (auto simp: convert_def)
  next
    case (Some bin)
    show ?thesis
    proof (cases x)
      case None
      with Some g p show ?thesis by (auto simp: convert_def)
    next
      case input: (Some input)
      from run obtain b w3 where "run_ffmpeg env w2 (command bin input) = (Returns b, w3)"
        by blast
      with Some input g p show ?thesis by (auto simp: convert_def)
    qed
  qed
qed





subsection \<open>The clean-up of the temporary directory\<close>

lemma rmtree_all_removable:
  assumes "\<forall>p. under d p \<longrightarrow> removable env p"
  shows "rmtree env d fs = {p \<in> fs. \<not> under d p}"
proof -
  have "under d d" by (simp add: under_def)
  with assms have "removable env d" by blast
  moreover have "{p \<in> fs. under d p \<and> p \<noteq> d \<and> \<not> removable env p} = {}"
    using assms by blast
  ultimately show ?thesis by (auto simp: rmtree_def)
qed

lemma rmtree_keeps:
  "p \<in> fs \<Longrightarrow> under d p \<Longrightarrow> p \<noteq> d \<Longrightarrow> \<not> removable env p \<Longrightarrow> p \<in> rmtree env d fs"
  by (simp add: rmtree_def Let_def)

lemma cleanup_removes:
  assumes "d \<noteq> []" and "\<forall>p. under d p \<longrightarrow> removable env p"
  shows "\<forall>p\<in>files (cleanup env (Some d) w). \<not> under d p"
  using assms
  by (auto simp: cleanup_def Let_def log_event_def os_path_exists_def rmtree_all_removable)

lemma cleanup_keeps:
  assumes "d \<noteq> []" and "p \<in> files w" and "under d p" and "p \<noteq> d" and "\<not> removable env p"
  shows "p \<in> files (cleanup env (Some d) w)"
proof -
  have "os_path_exists (files w) d"
    using assms(2,3) by (auto simp: os_path_exists_def)
  then show ?thesis
    using assms by (simp add: cleanup_def Let_def log_event_def rmtree_keeps)
qed

lemma prepare_input_temp_dir:
  assumes "mkdtemp env (files w) = Inr d"
  shows "\<exists>x w2. prepare_input env w in_path True = (Returns x, Some d, w2)"
proof -
  let ?w1 = "w\<lparr>files := insert d (files w), trace := trace w @ [Mkdtemp]\<rparr>"
  obtain r w2 where r: "render_tgs env ?w1 in_path d = (Returns r, w2)"
    using render_tgs_returns [of env ?w1 in_path d]
    by (cases "render_tgs env ?w1 in_path d") auto
  show ?thesis
    using assms r
    by (cases r) (simp add: prepare_input_def mk_temp_cases split: option.splits)
qed

lemma convert_cleanup:
  assumes "fst (get_ffmpeg_path env w) = Returns (Some bin)" and "bin \<noteq> []"
    and "mkdtemp env (files w) = Inr d" and "d \<noteq> []"
    and "\<forall>p. under d p \<longrightarrow> removable env p"
    and "fst (convert env w command in_path True) \<noteq> Hangs"
  shows "\<forall>p\<in>files (snd (convert env w command in_path True)). \<not> under d p"
proof -
  obtain w1 where g: "get_ffmpeg_path env w = (Returns (Some bin), w1)"
    using assms(1) by (cases "get_ffmpeg_path env w") auto
  from get_ffmpeg_path_files [of env w] g have "files w1 = files w" by simp
  with assms(3) have "mkdtemp env (files w1) = Inr d" by simp
  from prepare_input_temp_dir [OF this]
  obtain x w2 where p: "prepare_input env w1 in_path True = (Returns x, Some d, w2)" by blast
  note rm = cleanup_removes [OF assms(4) assms(5)]
  show ?thesis
  proof (cases x)
    case None
    with g p assms(2) rm show ?thesis by (simp add: convert_def)
  next
    case (Some input)
    obtain r3 w3 where f: "run_ffmpeg env w2 (command bin input) = (r3, w3)"
      by (cases "run_ffmpeg env w2 (command bin input)")
    with Some g p assms(2) assms(6) rm show ?thesis
      by (cases r3) (simp_all add: convert_def)
  qed
qed

lemma save_frame_removable [simp]:
  "save_frame (env\<lparr>removable := r\<rparr>) a name i wd ht w = save_frame env a name i wd ht w"
  by (simp add: save_frame_cases)

lemma save_frames_removable [simp]:
  "save_frames (env\<lparr>removable := r\<rparr>) a ptrn s idxs w = save_frames env a ptrn s idxs w"
  by (induction idxs arbitrary: w)
    (simp_all split: sum.splits prod.splits outcome.splits unit.splits)

lemma render_tgs_removable [simp]:
  "render_tgs (env\<lparr>removable := r\<rparr>) w p d = render_tgs env w p d"
  by (simp add: render_tgs_def render_tgs_try_def Let_def
      split: sum.splits prod.splits outcome.splits)

lemma get_ffmpeg_path_removable [simp]:
  "get_ffmpeg_path (env\<lparr>removable := r\<rparr>) w = get_ffmpeg_path env w"
  by (simp add: get_ffmpeg_path_def Let_def split: option.splits sum.splits list.splits)

lemma prepare_input_removable [simp]:
  "prepare_input (env\<lparr>removable := r\<rparr>) w in_path is_tgs = prepare_input env w in_path is_tgs"
  by (simp add: prepare_input_def mk_temp_cases
      split: sum.splits prod.splits outcome.splits option.splits)

lemma run_ffmpeg_removable [simp]:
  "run_ffmpeg (env\<lparr>removable := r\<rparr>) w cmd = run_ffmpeg env w cmd"
  by (simp add: run_ffmpeg_cases)

lemma convert_removable:
  "fst (convert (env\<lparr>removable := r\<rparr>) w command in_path is_tgs)
     = fst (convert env w command in_path is_tgs)"
  by (simp add: convert_def split: prod.splits outcome.splits option.splits)

text \<open>
  Claim C6, as amended. Let a call of \<^verbatim>\<open>to_gif\<close> or \<^verbatim>\<open>to_mp4\<close> have created the temporary
  directory \<open>d\<close> and come back, with true, with false or with an exception. If every path
  under \<open>d\<close> can be removed, no path under \<open>d\<close> is left. Removal is best effort
  (\<^verbatim>\<open>ignore_errors=True\<close>): what cannot be removed stays, silently. The outcome of the call
  does not depend on what can be removed.
\<close>

theorem temp_dir_cleanup:
  "(\<forall>bin d. fst (get_ffmpeg_path env w) = Returns (Some bin) \<and> bin \<noteq> []
        \<and> mkdtemp env (files w) = Inr d \<and> d \<noteq> []
        \<and> (\<forall>p. under d p \<longrightarrow> removable env p)
        \<longrightarrow> (fst (to_gif env w in_path out_path True) \<noteq> Hangs
               \<longrightarrow> (\<forall>p\<in>files (snd (to_gif env w in_path out_path True)). \<not> under d p))
            \<and> (fst (to_mp4 env w in_path out_path True) \<noteq> Hangs
               \<longrightarrow> (\<forall>p\<in>files (snd (to_mp4 env w in_path out_path True)). \<not> under d p)))
   \<and> (\<forall>r. fst (to_gif (env\<lparr>removable := r\<rparr>) w in_path out_path is_tgs)
              = fst (to_gif env w in_path out_path is_tgs)
          \<and> fst (to_mp4 (env\<lparr>removable := r\<rparr>) w in_path out_path is_tgs)
              = fst (to_mp4 env w in_path out_path is_tgs))"
proof (intro conjI allI impI)
  fix bin d
  assume h: "fst (get_ffmpeg_path env w) = Returns (Some bin) \<and> bin \<noteq> []
        \<and> mkdtemp env (files w) = Inr d \<and> d \<noteq> []
        \<and> (\<forall>p. under d p \<longrightarrow> removable env p)"
  show "\<forall>p\<in>files (snd (to_gif env w in_path out_path True)). \<not> under d p"
    if "fst (to_gif env w in_path out_path True) \<noteq> Hangs"
    using h that unfolding to_gif_convert by (intro convert_cleanup) auto
  show "\<forall>p\<in>files (snd (to_mp4 env w in_path out_path True)). \<not> under d p"
    if "fst (to_mp4 env w in_path out_path True) \<noteq> Hangs"
    using h that unfolding to_mp4_convert by (intro convert_cleanup) auto
next
  fix r
  show "fst (to_gif (env\<lparr>removable := r\<rparr>) w in_path out_path is_tgs)
              = fst (to_gif env w in_path out_path is_tgs)"
    by (simp add: to_gif_convert convert_removable)
  show "fst (to_mp4 (env\<lparr>removable := r\<rparr>) w in_path out_path is_tgs)
              = fst (to_mp4 env w in_path out_path is_tgs)"
    by (simp add: to_mp4_convert convert_removable)
qed

theorem temp_dir_cleanup_witness:
  "''/tmp/tmpq/frame_0000.png''
       \<notin> files (snd (to_gif demo_env demo_world ''in.tgs'' ''out.gif'' True))
   \<and> ''/tmp/tmpq/frame_0001.png''
       \<notin> files (snd (to_gif demo_env demo_world ''in.tgs'' ''out.gif'' True))
   \<and> fst (to_gif locked_env demo_world ''in.tgs'' ''out.gif'' True)
       = fst (to_gif demo_env demo_world ''in.tgs'' ''out.gif'' True)"
proof -
  have t: "truthy (which demo_env ''ffmpeg'')"
    by (simp add: demo_env_def truthy_def)
  have g: "fst (get_ffmpeg_path demo_env demo_world) = Returns (Some ''ffmpeg'')"
    by (simp add: get_ffmpeg_path_on_path [OF t])
  have n: "''ffmpeg'' \<noteq> []" "''/tmp/tmpq'' \<noteq> []" by simp_all
  have m: "mkdtemp demo_env (files demo_world) = Inr ''/tmp/tmpq''"
    "\<forall>p. under ''/tmp/tmpq'' p \<longrightarrow> removable demo_env p"
    by (simp_all add: demo_env_def)
  have u: "under ''/tmp/tmpq'' ''/tmp/tmpq/frame_0000.png''"
    "under ''/tmp/tmpq'' ''/tmp/tmpq/frame_0001.png''"
    by (simp_all add: under_def dir_prefix_def)
  have "\<forall>cmd fs. spawn demo_env cmd fs \<noteq> NeverExits"
    "True \<longrightarrow> (\<exists>d. mkdtemp demo_env (files demo_world) = Inr d)"
    by (simp_all add: demo_env_def)
  then have "\<exists>b. fst (convert demo_env demo_world (gif_command ''out.gif'') ''in.tgs'' True)
      = Returns b"
    by (rule convert_returns)
  then have nh: "fst (to_gif demo_env demo_world ''in.tgs'' ''out.gif'' True) \<noteq> Hangs"
    by (auto simp: to_gif_convert)
  from g n m nh temp_dir_cleanup [of demo_env demo_world "''in.tgs''" "''out.gif''" True]
  have "\<forall>p\<in>files (snd (to_gif demo_env demo_world ''in.tgs'' ''out.gif'' True)).
       \<not> under ''/tmp/tmpq'' p"
    by blast
  with u have "''/tmp/tmpq/frame_0000.png''
       \<notin> files (snd (to_gif demo_env demo_world ''in.tgs'' ''out.gif'' True))"
    "''/tmp/tmpq/frame_0001.png''
       \<notin> files (snd (to_gif demo_env demo_world ''in.tgs'' ''out.gif'' True))"
    by blast+
  moreover from temp_dir_cleanup [of demo_env demo_world "''in.tgs''" "''out.gif''" True]
  have "fst (to_gif (demo_env\<lparr>removable := (\<lambda>p. False)\<rparr>) demo_world ''in.tgs'' ''out.gif'' True)
       = fst (to_gif demo_env demo_world ''in.tgs'' ''out.gif'' True)"
    by blast
  ultimately show ?thesis by (simp add: locked_env_def)
qed

text \<open>
  The claim as first stated fails: where the frame files cannot be removed, the first
  frame is still in the temporary directory after \<^verbatim>\<open>to_gif\<close> has returned.
\<close>

theorem to_gif_leaves_frame_counterexample:
  "mkdtemp locked_env (files demo_world) = Inr ''/tmp/tmpq''
   \<and> fst (to_gif locked_env demo_world ''in.tgs'' ''out.gif'' True) = Returns True
   \<and> ''/tmp/tmpq/frame_0000.png''
        \<in> files (snd (to_gif locked_env demo_world ''in.tgs'' ''out.gif'' True))
   \<and> under ''/tmp/tmpq'' ''/tmp/tmpq/frame_0000.png''"
proof -
  define w1 where "w1 = log_event (Which ''ffmpeg'') demo_world"
  define w2 where "w2 = w1\<lparr>files := insert ''/tmp/tmpq'' (files w1), trace := trace w1 @ [Mkdtemp]\<rparr>"
  define w3 where "w3 = w2\<lparr>files := files w2 \<union> frame_file ''/tmp/tmpq'' ` {..<nat \<lceil>real 3 / 2\<rceil>},
        trace := trace w2 @ FromTgs ''in.tgs'' #
                 map (\<lambda>k. SaveFrame (frame_file ''/tmp/tmpq'' k) (2 * int k) 512 512)
                     [0..<nat \<lceil>real 3 / 2\<rceil>]\<rparr>"
  define input where "input = [''-framerate'', ''30'', ''-i'', ''/tmp/tmpq/frame_%04d.png'']"
  define cmd where "cmd = gif_command ''out.gif'' ''ffmpeg'' input"
  define w4 where "w4 = (log_event (Spawn cmd) w3)\<lparr>files := insert ''out.gif'' (files w3)\<rparr>"
  have n: "nat \<lceil>real 3 / 2\<rceil> = 2" by simp
  have f0: "frame_file ''/tmp/tmpq'' 0 = ''/tmp/tmpq/frame_0000.png''" by code_simp
  have u: "under ''/tmp/tmpq'' ''/tmp/tmpq/frame_0000.png''"
    by (simp add: under_def dir_prefix_def)
  have md: "mkdtemp locked_env (files demo_world) = Inr ''/tmp/tmpq''"
    by (simp add: locked_env_def demo_env_def)
  have t: "truthy (which locked_env ''ffmpeg'')"
    by (simp add: locked_env_def demo_env_def truthy_def)
  have g: "get_ffmpeg_path locked_env demo_world = (Returns (Some ''ffmpeg''), w1)"
    unfolding w1_def by (rule get_ffmpeg_path_on_path [OF t])
  have mk: "mk_temp locked_env w1 = (Returns ''/tmp/tmpq'', w2)"
    by (simp add: mk_temp_cases w2_def locked_env_def demo_env_def)
  have "rlottie_python locked_env" "from_tgs locked_env ''in.tgs'' = Inr demo_anim"
    "total_frames demo_anim = int 3" "framerate demo_anim = Finite 60"
    "(0::real) \<le> 60 \<or> (60::real) \<in> \<int>"
    by (simp_all add: locked_env_def demo_env_def demo_anim_def)
  moreover have "(3::nat) = 0 \<or> (CHR ''%'' \<notin> set ''/tmp/tmpq''
           \<and> (\<forall>k < nat \<lceil>real 3 / 2\<rceil>. renders demo_anim (2 * int k)
                      \<and> writable locked_env (frame_file ''/tmp/tmpq'' k)))"
    unfolding n by (auto simp: locked_env_def demo_env_def demo_anim_def)
  ultimately have "render_tgs locked_env w2 ''in.tgs'' ''/tmp/tmpq'' =
     (Returns (Some (os_path_join ''/tmp/tmpq'' ''frame_%04d.png''), \<lfloor>(60::real) / 2\<rfloor>),
      w2\<lparr>files := files w2 \<union> frame_file ''/tmp/tmpq'' ` {..<nat \<lceil>real 3 / 2\<rceil>},
        trace := trace w2 @ FromTgs ''in.tgs'' #
                 map (\<lambda>k. SaveFrame (frame_file ''/tmp/tmpq'' k) (2 * int k) 512 512)
                     [0..<nat \<lceil>real 3 / 2\<rceil>]\<rparr>)"
    by (rule render_tgs_success)
  then have rn: "render_tgs locked_env w2 ''in.tgs'' ''/tmp/tmpq'' =
     (Returns (Some ''/tmp/tmpq/frame_%04d.png'', 30), w3)"
    by (simp add: w3_def os_path_join_def)
  have p: "prepare_input locked_env w1 ''in.tgs'' True = (Returns (Some input), Some ''/tmp/tmpq'', w3)"
    by (simp add: prepare_input_def mk rn input_def py_str_30)
  have "cmd \<noteq> []" and "last cmd = ''out.gif''"
    by (simp_all add: cmd_def gif_command_def)
  then have "spawn locked_env cmd (files w3) = Exits 0 [] (insert ''out.gif'' (files w3))"
    by (simp add: locked_env_def demo_env_def)
  then have run: "run_ffmpeg locked_env w3 cmd = (Returns True, w4)"
    by (simp add: run_ffmpeg_cases w4_def)
  have res: "to_gif locked_env demo_world ''in.tgs'' ''out.gif'' True
      = (Returns True, cleanup locked_env (Some ''/tmp/tmpq'') w4)"
    using g p run by (simp add: to_gif_convert convert_def cmd_def)
  have "frame_file ''/tmp/tmpq'' 0 \<in> files w3"
    by (simp add: w3_def n)
  then have "''/tmp/tmpq/frame_0000.png'' \<in> files w4"
    by (simp add: w4_def f0 log_event_def)
  moreover have "\<not> removable locked_env ''/tmp/tmpq/frame_0000.png''"
    by (simp add: locked_env_def)
  ultimately have "''/tmp/tmpq/frame_0000.png'' \<in> files (cleanup locked_env (Some ''/tmp/tmpq'') w4)"
    using u by (intro cleanup_keeps) simp_all
  with res md u show ?thesis by simp
qed

end
